theory Spec2Isabelle
  imports Main
begin

section \<open>The RPG chat client: data model\<close>

text \<open>
  The development embeds the class \<open>MatrixRPGClient\<close> (the first, cache-aware
  implementation). Object state is a record that every method takes and returns; the
  protocol client library, the browser stores, the clock and the random number source
  are an environment record of replies. Everything the client sends outwards is
  appended to a trace kept in the state: event-bus publications, listener invocations,
  protocol requests and timer delays. A string is the list of the bytes of its UTF-8
  encoding; every character the source looks for is a single byte, except the
  white space that \<open>trim\<close> strips.
\<close>

subsection \<open>Messages and bus payloads\<close>

text \<open>
  The six roll fields and the two scene fields travel together inside
  \<open>formatted_body\<close>; they are copied as a group. A field that JavaScript leaves
  \<open>undefined\<close> is \<open>None\<close>; a boolean flag that is absent is \<open>False\<close> (both are
  falsy wherever the source tests them).
\<close>

record roll_fields =
  dice :: string
  rolls :: "int list"
  hits :: int
  highEvenOdd :: string
  lowEvenOdd :: string
  username :: string

record scene_fields =
  sceneName :: string
  sceneType :: string

record message =
  msg_id :: string
  sender :: string
  roomId :: string
  body_text :: string
  msg_type :: string
  powerLevel :: int
  timestamp :: int
  historical :: bool
  self :: bool
  redacted :: bool
  important :: bool
  roll_part :: "roll_fields option"
  scene_part :: "scene_fields option"

text \<open>What a listener receives: the \<open>data\<close> argument of \<open>_triggerEvent\<close>.\<close>

datatype payload =
    PMessage message
  | PNotice string string string bool bool
      \<comment> \<open>system notice: sender, roomId, text, temporary, important\<close>
  | PError string string
      \<comment> \<open>context, message\<close>
  | PRoomJoin string string
  | PRoomLeave
  | PRoomState string "(string \<times> int) list"

subsection \<open>The listener table\<close>

text \<open>
  \<open>this.listeners\<close> is an object literal with nine own keys, each holding an array.
  No method adds or deletes a key, so the own keys are a type.
\<close>

datatype event_name =
  EvMessage | EvRoll | EvLogin | EvError | EvRoomJoin | EvRoomLeave | EvRoomState
  | EvScene | EvNarrate

fun table_name :: "string \<Rightarrow> event_name option" where
  "table_name s =
     (if s = ''message'' then Some EvMessage
      else if s = ''roll'' then Some EvRoll
      else if s = ''login'' then Some EvLogin
      else if s = ''error'' then Some EvError
      else if s = ''roomJoin'' then Some EvRoomJoin
      else if s = ''roomLeave'' then Some EvRoomLeave
      else if s = ''roomState'' then Some EvRoomState
      else if s = ''scene'' then Some EvScene
      else if s = ''narrate'' then Some EvNarrate
      else None)"

subsection \<open>Protocol requests, storage outcomes, errors\<close>

record js_error =
  errcode :: "string option"
  err_message :: string
  retry_after_ms :: "nat option"

record outgoing =
  out_body :: string
  out_format :: string
  out_type :: string
  out_roll :: "roll_fields option"
  out_scene :: "scene_fields option"

datatype request =
    ReqLogin string string
  | ReqStartClient
  | ReqStopClient
  | ReqJoinRoom string "string option"
  | ReqGetStateEvent string
  | ReqGetJoinedRoomMembers string
  | ReqMessages string nat
  | ReqSendEvent string outgoing
  | ReqRedactEvent string string
  | ReqLeave string

datatype storage_result = Stored | QuotaExceededError | OtherStorageError

type_synonym cache = "string \<rightharpoonup> message list"

subsection \<open>The client object\<close>

text \<open>
  Room identifiers are the protocol's (\<open>!opaque:server\<close>); handlers are compared by
  reference in the source, so a handler is an identifier.
\<close>

record client =
  has_client :: bool
  room :: "string option"
  userId :: "string option"
  listeners :: "event_name \<Rightarrow> nat list"
  roomState :: "string \<rightharpoonup> (string \<times> int) list"
  messageCache :: cache
  isLoadingHistory :: bool
  historyLoaded :: bool
  localStorage :: "string \<rightharpoonup> string"
  storedCache :: "cache option"
  sessionStorage :: "string \<rightharpoonup> string"
  emitted :: "(event_name \<times> payload) list"
  calls :: "(nat \<times> payload) list"
  net :: "request list"
  waits :: "nat list"

section \<open>Persistent cache\<close>

definition prune_room :: "message list \<Rightarrow> message list" where
  "prune_room messages =
     (if length messages > 1000 then drop (length messages - 1000) messages
      else messages)"

definition pruneMessageCache :: "client \<Rightarrow> client" where
  "pruneMessageCache c =
     c\<lparr>messageCache := (\<lambda>r. map_option prune_room (messageCache c r))\<rparr>"

text \<open>
  \<open>setItem\<close> is the browser's reply to writing the serialised cache. Only a quota
  error triggers the prune-and-retry; any other failure is logged and dropped.
\<close>

definition saveMessageCache :: "(cache \<Rightarrow> storage_result) \<Rightarrow> client \<Rightarrow> client" where
  "saveMessageCache setItem c =
     (case setItem (messageCache c) of
        Stored \<Rightarrow> c\<lparr>storedCache := Some (messageCache c)\<rparr>
      | OtherStorageError \<Rightarrow> c
      | QuotaExceededError \<Rightarrow>
          (let c' = pruneMessageCache c in
           case setItem (messageCache c') of
             Stored \<Rightarrow> c'\<lparr>storedCache := Some (messageCache c')\<rparr>
           | _ \<Rightarrow> c'))"

text \<open>\<open>x || []\<close> on an array-valued slot: an array, even an empty one, is truthy.\<close>

definition or_empty :: "'a list option \<Rightarrow> 'a list" where
  "or_empty x = (case x of None \<Rightarrow> [] | Some xs \<Rightarrow> xs)"

definition addMessageToCache ::
  "(cache \<Rightarrow> storage_result) \<Rightarrow> string \<Rightarrow> message \<Rightarrow> client \<Rightarrow> client" where
  "addMessageToCache setItem r m c =
     (let c1 = (case messageCache c r of
                  None \<Rightarrow> c\<lparr>messageCache := (messageCache c)(r \<mapsto> [])\<rparr>
                | Some _ \<Rightarrow> c);
          ms = or_empty (messageCache c1 r)
      in if list_ex (\<lambda>x. msg_id x = msg_id m) ms then c1
         else saveMessageCache setItem
                (c1\<lparr>messageCache := (messageCache c1)(r \<mapsto> ms @ [m])\<rparr>))"

definition getMessageCache :: "client \<Rightarrow> string \<Rightarrow> message list" where
  "getMessageCache c r = or_empty (messageCache c r)"

text \<open>
  The constructor: empty listener arrays, no protocol client, the saved room id and the
  saved cache read back from the browser store (an absent or unparsable cache slot is
  \<open>None\<close> and gives the empty cache).
\<close>

definition new_client :: "(string \<rightharpoonup> string) \<Rightarrow> cache option \<Rightarrow> client" where
  "new_client ls stored =
     \<lparr>has_client = False, room = ls ''matrixRoom'', userId = None,
      listeners = (\<lambda>_. []), roomState = Map.empty,
      messageCache = (case stored of None \<Rightarrow> Map.empty | Some m \<Rightarrow> m),
      isLoadingHistory = False, historyLoaded = False,
      localStorage = ls, storedCache = stored, sessionStorage = Map.empty,
      emitted = [], calls = [], net = [], waits = []\<rparr>"

definition clearMessageCache :: "client \<Rightarrow> client" where
  "clearMessageCache c = c\<lparr>messageCache := Map.empty, storedCache := None\<rparr>"

text \<open>
  The cache update written out three times in the source (redaction listener,
  \<open>deleteLastMessage\<close>, \<open>clearAllMessages\<close>):
  \<open>cache.map(msg => msg.id === id ? {...msg, redacted: true} : msg)\<close>.
\<close>

definition markRedacted :: "string \<Rightarrow> message list \<Rightarrow> message list" where
  "markRedacted rid ms = map (\<lambda>msg. if msg_id msg = rid then msg\<lparr>redacted := True\<rparr> else msg) ms"

section \<open>Event bus\<close>

text \<open>
  \<open>emit\<close> is \<open>_triggerEvent\<close> on one of the nine own keys: every handler of the array
  is called with the data, in order. Handlers are observers: what a handler does to
  the client in turn is outside the model.
\<close>

definition emit :: "event_name \<Rightarrow> payload \<Rightarrow> client \<Rightarrow> client" where
  "emit ev d c =
     c\<lparr>emitted := emitted c @ [(ev, d)],
       calls := calls c @ map (\<lambda>h. (h, d)) (listeners c ev)\<rparr>"

text \<open>
  Property lookup on the listener object. A name that is not an own key is looked up
  on \<open>Object.prototype\<close>, whose members are functions (and, for \<open>__proto__\<close>, the
  prototype object itself): truthy values without \<open>push\<close>, \<open>filter\<close> or \<open>forEach\<close>.
\<close>

definition object_prototype_names :: "string list" where
  "object_prototype_names =
     [''constructor'', ''__defineGetter__'', ''__defineSetter__'', ''hasOwnProperty'',
      ''__lookupGetter__'', ''__lookupSetter__'', ''isPrototypeOf'',
      ''propertyIsEnumerable'', ''toString'', ''valueOf'', ''__proto__'',
      ''toLocaleString'']"

datatype slot = Own event_name | Inherited | Undefined

definition listener_slot :: "string \<Rightarrow> slot" where
  "listener_slot name =
     (case table_name name of
        Some k \<Rightarrow> Own k
      | None \<Rightarrow> if name \<in> set object_prototype_names then Inherited else Undefined)"

datatype js_exception = TypeError

definition on :: "string \<Rightarrow> nat \<Rightarrow> client \<Rightarrow> js_exception + client" where
  "on event callback c =
     (case listener_slot event of
        Own k \<Rightarrow> Inr (c\<lparr>listeners := (listeners c)(k := listeners c k @ [callback])\<rparr>)
      | Inherited \<Rightarrow> Inl TypeError
      | Undefined \<Rightarrow> Inr c)"

definition off :: "string \<Rightarrow> nat \<Rightarrow> client \<Rightarrow> js_exception + client" where
  "off event callback c =
     (case listener_slot event of
        Own k \<Rightarrow>
          Inr (c\<lparr>listeners := (listeners c)(k := filter (\<lambda>cb. cb \<noteq> callback) (listeners c k))\<rparr>)
      | Inherited \<Rightarrow> Inl TypeError
      | Undefined \<Rightarrow> Inr c)"

definition triggerEvent :: "string \<Rightarrow> payload \<Rightarrow> client \<Rightarrow> js_exception + client" where
  "triggerEvent event d c =
     (case listener_slot event of
        Own k \<Rightarrow> Inr (emit k d c)
      | Inherited \<Rightarrow> Inl TypeError
      | Undefined \<Rightarrow> Inr c)"

definition processHistoricalMessage :: "message \<Rightarrow> client \<Rightarrow> client" where
  "processHistoricalMessage msg c =
     (if isLoadingHistory c \<and> \<not> important msg then c
      else if msg_type msg = ''roll'' then emit EvRoll (PMessage msg) c
      else if msg_type msg = ''scene'' then emit EvScene (PMessage msg) c
      else emit EvMessage (PMessage msg) c)"

section \<open>Dice engine\<close>

text \<open>
  The pattern \<open>/^(\d+)d(\d+)$/\<close>: one or more ASCII digits, the letter d, one or more
  ASCII digits, and nothing else. The two groups are returned.
\<close>

definition is_digit :: "char \<Rightarrow> bool" where
  "is_digit ch = (ch \<in> set ''0123456789'')"

definition match_notation :: "string \<Rightarrow> (string \<times> string) option" where
  "match_notation s =
     (let a = takeWhile is_digit s; r = dropWhile is_digit s in
      case r of
        [] \<Rightarrow> None
      | ch # b \<Rightarrow>
          if a \<noteq> [] \<and> ch = CHR ''d'' \<and> b \<noteq> [] \<and> list_all is_digit b then Some (a, b)
          else None)"

definition digit_val :: "char \<Rightarrow> nat" where
  "digit_val ch = of_char ch - 48"

text \<open>\<open>parseInt(ds, 10)\<close> on a string of digits.\<close>

definition parseInt :: "string \<Rightarrow> nat" where
  "parseInt ds = foldl (\<lambda>acc ch. 10 * acc + digit_val ch) 0 ds"

record roll_result =
  rr_rolls :: "int list"
  total :: int

subsection \<open>The product of a random number and the number of sides\<close>

text \<open>
  \<open>Math.random()\<close> returns a double that is at least 0 and less than 1. Every such
  double is \<open>m / 2^E\<close> for a significand \<open>m\<close> below \<open>2^53\<close> and an exponent \<open>E\<close> of at most
  1074; the pair \<open>(m, E)\<close> stands for it. The number of sides is an integer of at most
  1000, so the exact product is \<open>(m * sides) / 2^E\<close>, and the double the multiplication
  returns is the exact product rounded to 53 significant bits, to nearest, ties to
  even. (A product of \<open>2^53\<close> or more over \<open>2^E\<close> is at least \<open>2^(-1021)\<close>, so the
  rounding never happens among the subnormal numbers; the product is below 1000, so it
  never overflows.) \<open>bits n\<close> is the length of \<open>n\<close> in binary.
\<close>

fun bits :: "nat \<Rightarrow> nat" where
  "bits n = (if n = 0 then 0 else Suc (bits (n div 2)))"

declare bits.simps [simp del]

definition round53 :: "nat \<Rightarrow> nat" where
  "round53 n =
     (if bits n \<le> 53 then n
      else (let k = bits n - 53;
                q = n div 2 ^ k;
                rest = n mod 2 ^ k;
                half = 2 ^ (k - 1);
                q' = (if half < rest \<or> (rest = half \<and> odd q) then q + 1 else q)
            in q' * 2 ^ k))"

definition unit_double :: "nat \<times> nat \<Rightarrow> bool" where
  "unit_double d = (case d of (m, E) \<Rightarrow> m < 2 ^ 53 \<and> m < 2 ^ E \<and> E \<le> 1074)"

text \<open>\<open>Math.floor(Math.random() * sides)\<close> for the random double \<open>d\<close>.\<close>

definition floor_product :: "nat \<times> nat \<Rightarrow> nat \<Rightarrow> nat" where
  "floor_product d sides = (case d of (m, E) \<Rightarrow> round53 (m * sides) div 2 ^ E)"

text \<open>\<open>random i\<close> is what the \<open>i\<close>-th call of \<open>Math.random()\<close> returns.\<close>

definition rollDice :: "(nat \<Rightarrow> nat \<times> nat) \<Rightarrow> string \<Rightarrow> roll_result option" where
  "rollDice random notation =
     (case match_notation notation of
        None \<Rightarrow> None
      | Some (g1, g2) \<Rightarrow>
          (let count = parseInt g1; sides = parseInt g2 in
           if count > 100 \<or> sides > 1000 then None
           else (let rs = map (\<lambda>i. int (floor_product (random i) sides) + 1) [0..<count]
                 in Some \<lparr>rr_rolls = rs, total = foldl (+) 0 rs\<rparr>)))"

section \<open>Strings as the source uses them\<close>




text \<open>A string value is truthy when it is neither \<open>null\<close>/\<open>undefined\<close> nor empty.\<close>

definition truthy :: "string option \<Rightarrow> bool" where
  "truthy x = (case x of None \<Rightarrow> False | Some s \<Rightarrow> s \<noteq> [])"





text \<open>\<open>msg || fallback\<close> on an error's message.\<close>

definition or_else :: "string \<Rightarrow> string \<Rightarrow> string" where
  "or_else msg fallback = (if msg = [] then fallback else msg)"

text \<open>A \<open>null\<close> user id is written as the empty string where it is stored in a record.\<close>

definition str_of :: "string option \<Rightarrow> string" where
  "str_of x = (case x of None \<Rightarrow> [] | Some s \<Rightarrow> s)"

text \<open>Decimal printing of a number, as string interpolation and \<open>join\<close> do it.\<close>

definition digit_char :: "nat \<Rightarrow> char" where
  "digit_char d = ''0123456789'' ! d"

fun show_nat :: "nat \<Rightarrow> string" where
  "show_nat n =
     (if n < 10 then [digit_char n]
      else show_nat (n div 10) @ [digit_char (n mod 10)])"

definition show_int :: "int \<Rightarrow> string" where
  "show_int i = (if i < 0 then CHR ''-'' # show_nat (nat (- i)) else show_nat (nat i))"

section \<open>The environment\<close>

text \<open>
  A timeline event as the protocol library hands it over. \<open>ev_formatted_type\<close> is
  \<open>content.formatted_body?.type\<close>; a \<open>formatted_body\<close> that is a string or is missing
  has no type.
\<close>

record event =
  ev_id :: string
  ev_type :: string
  ev_redacted :: bool
  ev_sender :: string
  ev_ts :: int
  ev_body :: string
  ev_format :: string
  ev_formatted_type :: "string option"
  ev_roll :: "roll_fields option"
  ev_scene :: "scene_fields option"
  ev_associated :: "string option"

text \<open>
  One reply to \<open>createMessagesRequest\<close>: a rejection, or a response with its chunk
  (\<open>None\<close> when the response or its chunk is missing) and whether \<open>response.end\<close> is
  truthy.
\<close>

datatype page_reply = Rejected js_error | Resolved "event list option" bool

record env =
  setItem :: "cache \<Rightarrow> storage_result"
  loginWithPassword :: "string \<Rightarrow> string \<Rightarrow> js_error + (string \<times> string)"
  startClient :: "js_error option"
  joinRoomReply :: "string \<Rightarrow> string option \<Rightarrow> js_error + (string \<times> string)"
  getStateEvent :: "string \<Rightarrow> js_error + (string \<times> int) list"
  getJoinedRoomMembers :: "string \<Rightarrow> js_error + string list"
  getRoom :: "string \<Rightarrow> event list option"
  sendEvent :: "string \<Rightarrow> outgoing \<Rightarrow> js_error + string"
  redactEvent :: "string \<Rightarrow> string \<Rightarrow> js_error option"
  leave :: "string \<Rightarrow> js_error option"
  now :: int
  random :: "nat \<Rightarrow> nat \<times> nat"

definition request :: "request \<Rightarrow> client \<Rightarrow> client" where
  "request q c = c\<lparr>net := net c @ [q]\<rparr>"

definition wait :: "nat \<Rightarrow> client \<Rightarrow> client" where
  "wait ms c = c\<lparr>waits := waits c @ [ms]\<rparr>"



section \<open>Room state\<close>

definition member_power :: "client \<Rightarrow> string \<Rightarrow> string \<Rightarrow> int" where
  "member_power c r u =
     (case roomState c r of
        None \<Rightarrow> 0
      | Some members \<Rightarrow> (case map_of members u of None \<Rightarrow> 0 | Some p \<Rightarrow> p))"

definition updateRoomState :: "env \<Rightarrow> string \<Rightarrow> client \<Rightarrow> client" where
  "updateRoomState e r c =
     (let c1 = request (ReqGetStateEvent r) c in
      case getStateEvent e r of
        Inl err \<Rightarrow>
          emit EvError
            (PError ''roomState'' (or_else (err_message err) ''Failed to update room state'')) c1
      | Inr users \<Rightarrow>
          (let c2 = request (ReqGetJoinedRoomMembers r) c1 in
           case getJoinedRoomMembers e r of
             Inl err \<Rightarrow>
               emit EvError
                 (PError ''roomState''
                    (or_else (err_message err) ''Failed to update room state'')) c2
           | Inr members \<Rightarrow>
               (let st = map (\<lambda>u. (u, case map_of users u of None \<Rightarrow> 0 | Some p \<Rightarrow> p)) members
                in emit EvRoomState (PRoomState r st)
                     (c2\<lparr>roomState := (roomState c2)(r \<mapsto> st)\<rparr>))))"

section \<open>History loader\<close>

text \<open>\<open>content.formatted_body?.type || 'chat'\<close>.\<close>

definition messageType :: "event \<Rightarrow> string" where
  "messageType ev = (if truthy (ev_formatted_type ev) then str_of (ev_formatted_type ev) else ''chat'')"

definition rpg_format :: string where
  "rpg_format = ''org.matrix.custom.rpg''"

text \<open>The \<open>messageObj\<close> that \<open>processEvents\<close> builds from one event.\<close>

definition historicalMessage :: "client \<Rightarrow> string \<Rightarrow> event \<Rightarrow> message" where
  "historicalMessage c r ev =
     \<lparr>msg_id = ev_id ev, sender = ev_sender ev, roomId = r, body_text = ev_body ev,
      msg_type = messageType ev, powerLevel = member_power c r (ev_sender ev),
      timestamp = ev_ts ev, historical = True, self = False, redacted = False,
      important = False,
      roll_part = (if messageType ev = ''roll'' \<and> ev_format ev = rpg_format
                   then ev_roll ev else None),
      scene_part = (if messageType ev = ''roll'' \<and> ev_format ev = rpg_format then None
                    else if messageType ev = ''scene'' \<and> ev_format ev = rpg_format
                    then ev_scene ev else None)\<rparr>"

text \<open>
  The body of \<open>events.forEach\<close> inside \<open>processEvents\<close>. The loop state is the
  \<open>processedEvents\<close> set, the \<open>newEvents\<close> counter and the client.
\<close>

definition processEvent ::
  "env \<Rightarrow> string \<Rightarrow> event \<Rightarrow> string list \<times> nat \<times> client \<Rightarrow> string list \<times> nat \<times> client" where
  "processEvent e r ev st =
     (case st of (processedEvents, newEvents, c) \<Rightarrow>
        if ev_id ev \<in> set processedEvents \<or> ev_redacted ev then st
        else if ev_type ev = ''m.room.message'' then
          (let messageObj = historicalMessage c r ev;
               c1 = addMessageToCache (setItem e) r messageObj c;
               c2 = processHistoricalMessage messageObj c1
           in (processedEvents @ [ev_id ev], newEvents + 1, c2))
        else (processedEvents @ [ev_id ev], newEvents, c))"

definition processEvents ::
  "env \<Rightarrow> string \<Rightarrow> event list \<Rightarrow> string list \<times> client \<Rightarrow> string list \<times> nat \<times> client" where
  "processEvents e r events st = fold (processEvent e r) events (fst st, 0, snd st)"

text \<open>\<open>error.data?.retry_after_ms || 5000\<close>: a missing delay and a delay of zero are both falsy.\<close>

definition retryAfter :: "js_error \<Rightarrow> nat" where
  "retryAfter err =
     (case retry_after_ms err of None \<Rightarrow> 5000 | Some d \<Rightarrow> if d = 0 then 5000 else d)"

definition notice :: "string \<Rightarrow> string \<Rightarrow> bool \<Rightarrow> payload" where
  "notice r txt temporary = PNotice ''system'' r txt temporary False"

text \<open>
  \<open>paginateBackward\<close> calls itself after every page that brought something new and
  after every rate-limit rejection, each time with one more request. The replies of
  the server are a script; the result is \<open>None\<close> when the script ends before the loader
  stops asking.
\<close>

fun paginateBackward ::
  "env \<Rightarrow> string \<Rightarrow> nat \<Rightarrow> page_reply list \<Rightarrow> string list \<times> client \<Rightarrow> (string list \<times> client) option" where
  "paginateBackward e r limit [] st = None"
| "paginateBackward e r limit (Rejected err # script) st =
     (let c = request (ReqMessages r limit) (snd st) in
      if errcode err = Some ''M_LIMIT_EXCEEDED''
      then paginateBackward e r limit script (fst st, wait (retryAfter err) c)
      else Some (fst st,
             emit EvMessage
               (notice r (''Couldn't load more history: '' @
                            or_else (err_message err) ''Unknown error'') True) c))"
| "paginateBackward e r limit (Resolved chunk has_end # script) st =
     (let c = request (ReqMessages r limit) (snd st) in
      if chunk = None \<or> chunk = Some []
      then Some (fst st, emit EvMessage (notice r ''All message history loaded'' True) c)
      else (case processEvents e r (or_empty chunk) (fst st, c) of
              (processedEvents, newEvents, c') \<Rightarrow>
                if has_end \<and> newEvents > 0
                then paginateBackward e r limit script (processedEvents, wait 500 c')
                else Some (processedEvents, c')))"

definition loadRoomHistory ::
  "env \<Rightarrow> page_reply list \<Rightarrow> string \<Rightarrow> client \<Rightarrow> (bool \<times> client) option" where
  "loadRoomHistory e script r c =
     (if \<not> has_client c then Some (False, c)
      else case getRoom e r of
        None \<Rightarrow> Some (False, c)
      | Some timeline \<Rightarrow>
          (let c1 = emit EvMessage (notice r ''Loading message history...'' False) c in
           case processEvents e r timeline ([], c1) of
             (processedEvents, newEvents, c2) \<Rightarrow>
               map_option (\<lambda>st. (True, snd st))
                 (paginateBackward e r 100 script (processedEvents, c2))))"

section \<open>Room management\<close>

definition joinRoom ::
  "env \<Rightarrow> page_reply list \<Rightarrow> string \<Rightarrow> string option \<Rightarrow> client \<Rightarrow> (bool \<times> client) option" where
  "joinRoom e script roomIdOrAlias inviteCode c =
     (if \<not> has_client c
      then Some (False, emit EvError (PError ''joinRoom'' ''Not logged in'') c)
      else
        (let joinOptions = (if truthy inviteCode then inviteCode else None);
             c0 = request (ReqJoinRoom roomIdOrAlias joinOptions) c in
         case joinRoomReply e roomIdOrAlias joinOptions of
           Inl err \<Rightarrow>
             Some (False,
               emit EvError
                 (PError ''joinRoom'' (or_else (err_message err) ''Failed to join room'')) c0)
         | Inr (r, name) \<Rightarrow>
             (let c1 = c0\<lparr>room := Some r,
                          localStorage := (localStorage c0)(''matrixRoom'' \<mapsto> r)\<rparr>;
                  c2 = updateRoomState e r c1;
                  cachedMessages = getMessageCache c2 r;
                  c3 = fold processHistoricalMessage cachedMessages c2;
                  c4 = c3\<lparr>isLoadingHistory := True\<rparr>
              in case loadRoomHistory e script r c4 of
                   None \<Rightarrow> None
                 | Some (_, c5) \<Rightarrow>
                     Some (True,
                       emit EvRoomJoin (PRoomJoin r name)
                         (c5\<lparr>isLoadingHistory := False, historyLoaded := True\<rparr>)))))"

definition not_in_room :: "client \<Rightarrow> bool" where
  "not_in_room c = (\<not> has_client c \<or> \<not> truthy (room c))"


section \<open>Authentication and session\<close>





section \<open>Sending\<close>

definition own_message :: "env \<Rightarrow> client \<Rightarrow> string \<Rightarrow> string \<Rightarrow> string \<Rightarrow> message" where
  "own_message e c event_id txt ty =
     \<lparr>msg_id = event_id, sender = str_of (userId c), roomId = str_of (room c),
      body_text = txt, msg_type = ty,
      powerLevel = member_power c (str_of (room c)) (str_of (userId c)),
      timestamp = now e, historical = False, self = True, redacted = False,
      important = False, roll_part = None, scene_part = None\<rparr>"

text \<open>
  The common shape of the four senders after their guard: the request, and on success
  the record of the client's own message put into the cache.
\<close>

definition send ::
  "env \<Rightarrow> string \<Rightarrow> string \<Rightarrow> outgoing \<Rightarrow> (string \<Rightarrow> message) \<Rightarrow> client \<Rightarrow> bool \<times> client" where
  "send e ctx failure content record_of c =
     (let r = str_of (room c); c1 = request (ReqSendEvent r content) c in
      case sendEvent e r content of
        Inl err \<Rightarrow> (False, emit EvError (PError ctx (or_else (err_message err) failure)) c1)
      | Inr event_id \<Rightarrow> (True, addMessageToCache (setItem e) r (record_of event_id) c1))"




text \<open>
  \<open>Math.max(...rolls)\<close> and \<open>Math.min(...rolls)\<close>: of no arguments they are
  \<open>-Infinity\<close> and \<open>Infinity\<close>, written \<open>None\<close>; \<open>Infinity % 2\<close> is \<open>NaN\<close>, which is not
  \<open>0\<close>, so the parity of \<open>None\<close> is odd.
\<close>

definition math_max :: "int list \<Rightarrow> int option" where
  "math_max xs = (case xs of [] \<Rightarrow> None | x # ys \<Rightarrow> Some (foldl max x ys))"

definition math_min :: "int list \<Rightarrow> int option" where
  "math_min xs = (case xs of [] \<Rightarrow> None | x # ys \<Rightarrow> Some (foldl min x ys))"

definition evenOdd :: "int option \<Rightarrow> string" where
  "evenOdd v = (case v of None \<Rightarrow> ''odd'' | Some n \<Rightarrow> if n mod 2 = 0 then ''even'' else ''odd'')"

text \<open>\<open>rolls.join('][')\<close>.\<close>

fun join_rolls :: "int list \<Rightarrow> string" where
  "join_rolls [] = []"
| "join_rolls [x] = show_int x"
| "join_rolls (x # y # ys) = show_int x @ '']['' @ join_rolls (y # ys)"

definition dice_emoji :: string where
  "dice_emoji = [CHR 0xF0, CHR 0x9F, CHR 0x8E, CHR 0xB2]"

definition rollText :: "string \<Rightarrow> string \<Rightarrow> int list \<Rightarrow> nat \<Rightarrow> string \<Rightarrow> string \<Rightarrow> string" where
  "rollText name notation rs h hi lo =
     dice_emoji @ '' @'' @ name @ '' '' @ notation @ '': ['' @ join_rolls rs @ ''] = '' @
     show_nat h @ '' hit'' @ (if h \<noteq> 1 then ''s'' else []) @
     '', high '' @ hi @ '', low '' @ lo"

text \<open>
  Reading \<open>this.userId.split\<close> on a \<open>null\<close> user id throws inside the \<open>try\<close>; the
  handler publishes the exception's own message (the engine's wording).
\<close>

definition null_split_message :: string where
  "null_split_message = ''Cannot read properties of null (reading 'split')''"

definition sendRoll :: "env \<Rightarrow> string \<Rightarrow> client \<Rightarrow> bool \<times> client" where
  "sendRoll e notation c =
     (if not_in_room c
      then (False, emit EvError (PError ''sendRoll'' ''Not in a room or not logged in'') c)
      else case rollDice (random e) notation of
        None \<Rightarrow> (False, emit EvError (PError ''sendRoll'' ''Invalid dice notation'') c)
      | Some rollResult \<Rightarrow>
          (let rs = rr_rolls rollResult;
               h = length (filter (\<lambda>roll. roll mod 2 = 0) rs);
               highest = math_max rs;
               lowest = math_min rs;
               hi = evenOdd highest;
               lo = evenOdd lowest
           in case userId c of
                None \<Rightarrow> (False, emit EvError (PError ''sendRoll'' null_split_message) c)
              | Some uid \<Rightarrow>
                  (let name = takeWhile (\<lambda>ch. ch \<noteq> CHR '':'') uid;
                       txt = rollText name notation rs h hi lo;
                       fields = \<lparr>dice = notation, rolls = rs, hits = int h,
                                 highEvenOdd = hi, lowEvenOdd = lo, username = name\<rparr>
                   in send e ''sendRoll'' ''Failed to send roll''
                        \<lparr>out_body = txt, out_format = rpg_format, out_type = ''roll'',
                         out_roll = Some fields, out_scene = None\<rparr>
                        (\<lambda>event_id. (own_message e c event_id txt ''roll'')
                           \<lparr>roll_part := Some fields\<rparr>) c)))"

section \<open>Redaction\<close>

text \<open>
  \<open>if (cache[room]) { cache[room] = cache[room].map(...); this._saveMessageCache(); }\<close>,
  as it stands in the redaction listener and at the end of \<open>deleteLastMessage\<close>.
\<close>

definition redactInCache :: "(cache \<Rightarrow> storage_result) \<Rightarrow> string \<Rightarrow> string \<Rightarrow> client \<Rightarrow> client" where
  "redactInCache store r rid c =
     (case messageCache c r of
        None \<Rightarrow> c
      | Some ms \<Rightarrow>
          saveMessageCache store (c\<lparr>messageCache := (messageCache c)(r \<mapsto> markRedacted rid ms)\<rparr>))"

text \<open>
  The array sort of the source is stable, and so is \<open>sort_key\<close>; sorting by the
  negated timestamp puts the newest first.
\<close>

definition deleteLastMessage :: "env \<Rightarrow> client \<Rightarrow> bool \<times> client" where
  "deleteLastMessage e c =
     (if not_in_room c
      then (False, emit EvError (PError ''deleteMessage'' ''Not in a room or not logged in'') c)
      else
        (let r = str_of (room c) in
         case getRoom e r of
           None \<Rightarrow> (False, c)
         | Some timeline \<Rightarrow>
             (let fromTimeline =
                    find (\<lambda>ev. ev_type ev = ''m.room.message'' \<and> Some (ev_sender ev) = userId c)
                      (rev timeline);
                  fromCache =
                    (case messageCache c r of
                       None \<Rightarrow> None
                     | Some ms \<Rightarrow>
                         (case sort_key (\<lambda>m. - timestamp m)
                                 (filter (\<lambda>m. sender m = str_of (userId c)) ms) of
                            [] \<Rightarrow> None
                          | m # _ \<Rightarrow> Some (msg_id m)));
                  lastMessageEvent =
                    (case fromTimeline of Some ev \<Rightarrow> Some (ev_id ev) | None \<Rightarrow> fromCache)
              in case lastMessageEvent of
                   None \<Rightarrow>
                     (False,
                      emit EvError (PError ''deleteMessage'' ''No messages found to delete'') c)
                 | Some rid \<Rightarrow>
                     (let c1 = request (ReqRedactEvent r rid) c in
                      case redactEvent e r rid of
                        Some err \<Rightarrow>
                          (False,
                           emit EvError
                             (PError ''deleteMessage''
                                (or_else (err_message err) ''Failed to delete message'')) c1)
                      | None \<Rightarrow> (True, redactInCache (setItem e) r rid c1)))))"

section \<open>Live event multiplexer\<close>

definition liveMessage :: "client \<Rightarrow> string \<Rightarrow> event \<Rightarrow> message" where
  "liveMessage c r ev =
     \<lparr>msg_id = ev_id ev, sender = ev_sender ev, roomId = r, body_text = ev_body ev,
      msg_type = messageType ev, powerLevel = member_power c r (ev_sender ev),
      timestamp = ev_ts ev, historical = False, self = (Some (ev_sender ev) = userId c),
      redacted = False, important = False,
      roll_part = (if ev_format ev = rpg_format \<and> messageType ev = ''roll''
                   then ev_roll ev else None),
      scene_part = (if ev_format ev = rpg_format \<and> messageType ev = ''scene''
                    then ev_scene ev else None)\<rparr>"

text \<open>
  The \<open>Room.timeline\<close> listener that \<open>setupClientListeners\<close> installs, applied to an
  event \<open>ev\<close> of the room \<open>r\<close>. The room-state refresh it starts is run to its end at
  once.
\<close>

definition roomTimeline :: "env \<Rightarrow> event \<Rightarrow> string \<Rightarrow> client \<Rightarrow> client" where
  "roomTimeline e ev r c =
     (if Some r \<noteq> room c then c
      else if ev_type ev = ''m.room.message'' \<and> \<not> ev_redacted ev then
        (if list_ex (\<lambda>m. msg_id m = ev_id ev) (or_empty (messageCache c r)) then c
         else
           (let messageObj = liveMessage c r ev;
                c1 = addMessageToCache (setItem e) r messageObj c
            in if ev_format ev = rpg_format \<and> messageType ev = ''roll''
               then emit EvRoll (PMessage messageObj) c1
               else if ev_format ev = rpg_format \<and> messageType ev = ''scene''
               then emit EvScene (PMessage messageObj) c1
               else emit EvMessage (PMessage messageObj) c1))
      else
        (let c1 = (if ev_type ev = ''m.room.redaction'' \<and> truthy (ev_associated ev)
                   then redactInCache (setItem e) r (str_of (ev_associated ev)) c
                   else c)
         in if ev_type ev = ''m.room.member'' \<or> ev_type ev = ''m.room.power_levels''
            then updateRoomState e r c1
            else c1))"

section \<open>Command interpreter\<close>




section \<open>Specification predicates and sample data\<close>

text \<open>The cache invariant of the data model: at most one record per room and event id.\<close>

definition ids_distinct :: "client \<Rightarrow> bool" where
  "ids_distinct c = (\<forall>r ms. messageCache c r = Some ms \<longrightarrow> distinct (map msg_id ms))"

definition example_room :: string where
  "example_room = ''!room:matrix.org''"

definition example_record :: "string \<Rightarrow> message" where
  "example_record i =
     \<lparr>msg_id = i, sender = ''@alice:matrix.org'', roomId = example_room,
      body_text = ''hello'', msg_type = ''chat'', powerLevel = 0, timestamp = 1,
      historical = False, self = False, redacted = False, important = False,
      roll_part = None, scene_part = None\<rparr>"

definition client_with_cache :: "message list \<Rightarrow> client" where
  "client_with_cache ms = new_client Map.empty (Some [example_room \<mapsto> ms])"

definition records_1500 :: "message list" where
  "records_1500 = map (\<lambda>i. example_record (show_nat i)) [0..<1500]"

definition example_env :: env where
  "example_env =
     \<lparr>setItem = (\<lambda>_. Stored),
      loginWithPassword = (\<lambda>_ _. Inr (''@alice:matrix.org'', ''token'')),
      startClient = None,
      joinRoomReply = (\<lambda>_ _. Inr (example_room, ''Room'')),
      getStateEvent = (\<lambda>_. Inr []),
      getJoinedRoomMembers = (\<lambda>_. Inr [''@alice:matrix.org'']),
      getRoom = (\<lambda>_. Some []),
      sendEvent = (\<lambda>_ _. Inr ''$sent''),
      redactEvent = (\<lambda>_ _. None),
      leave = (\<lambda>_. None),
      now = 1000,
      random = (\<lambda>_. (1, 1))\<rparr>"

text \<open>
  The specification's reading of a notation: \<open>s\<close> is \<open>NdM\<close> when it is a non-empty
  string of decimal digits denoting \<open>N\<close>, the letter d, and a non-empty string of
  decimal digits denoting \<open>M\<close>.
\<close>

definition notation_of :: "nat \<Rightarrow> nat \<Rightarrow> string \<Rightarrow> bool" where
  "notation_of N M s =
     (\<exists>a b. s = a @ ''d'' @ b \<and> a \<noteq> [] \<and> b \<noteq> [] \<and>
            list_all is_digit a \<and> list_all is_digit b \<and>
            parseInt a = N \<and> parseInt b = M)"






text \<open>A client that is logged in as alice, has joined the sample room and caches one record.\<close>

definition example_session :: client where
  "example_session =
     (client_with_cache [example_record ''$1''])
       \<lparr>has_client := True, room := Some example_room, userId := Some ''@alice:matrix.org''\<rparr>"

definition redaction_of :: "string \<Rightarrow> event" where
  "redaction_of rid =
     \<lparr>ev_id = ''$redaction'', ev_type = ''m.room.redaction'', ev_redacted = False,
      ev_sender = ''@alice:matrix.org'', ev_ts = 2, ev_body = [], ev_format = [],
      ev_formatted_type = None, ev_roll = None, ev_scene = None, ev_associated = Some rid\<rparr>"

text \<open>The bus channel of a message by its type tag, as the specification names it.\<close>

definition channel_of :: "message \<Rightarrow> event_name" where
  "channel_of m =
     (if msg_type m = ''roll'' then EvRoll
      else if msg_type m = ''scene'' then EvScene
      else EvMessage)"

definition rate_limited :: "js_error \<Rightarrow> bool" where
  "rate_limited err = (errcode err = Some ''M_LIMIT_EXCEEDED'')"

text \<open>A chat event of the history, and a client that has logged in and caches nothing.\<close>

definition chat_event :: event where
  "chat_event =
     \<lparr>ev_id = ''$h1'', ev_type = ''m.room.message'', ev_redacted = False,
      ev_sender = ''@bob:matrix.org'', ev_ts = 5, ev_body = ''hi'', ev_format = [],
      ev_formatted_type = None, ev_roll = None, ev_scene = None, ev_associated = None\<rparr>"

definition chat_record :: message where
  "chat_record =
     \<lparr>msg_id = ''$h1'', sender = ''@bob:matrix.org'', roomId = example_room,
      body_text = ''hi'', msg_type = ''chat'', powerLevel = 0, timestamp = 5,
      historical = True, self = False, redacted = False, important = False,
      roll_part = None, scene_part = None\<rparr>"

definition fresh_login :: client where
  "fresh_login =
     (new_client Map.empty None)\<lparr>has_client := True, userId := Some ''@alice:matrix.org''\<rparr>"

text \<open>A rate-limit rejection with the delay the server gives, and a network failure.\<close>

definition limit_error :: "nat option \<Rightarrow> js_error" where
  "limit_error d =
     \<lparr>errcode = Some ''M_LIMIT_EXCEEDED'', err_message = ''Too Many Requests'',
      retry_after_ms = d\<rparr>"

definition network_error :: js_error where
  "network_error =
     \<lparr>errcode = None, err_message = ''Network request failed'', retry_after_ms = None\<rparr>"

text \<open>The system notice that ends a pagination on a failure.\<close>

definition failure_notice :: "string \<Rightarrow> js_error \<Rightarrow> payload" where
  "failure_notice r err =
     PNotice ''system'' r
       (''Couldn't load more history: '' @ or_else (err_message err) ''Unknown error'')
       True False"

text \<open>
  A browser store that is full, and a session whose joined room caches 1500 records.
\<close>

definition quota_env :: env where
  "quota_env = example_env\<lparr>setItem := (\<lambda>_. QuotaExceededError)\<rparr>"

definition big_session :: client where
  "big_session =
     (client_with_cache records_1500)
       \<lparr>has_client := True, room := Some example_room, userId := Some ''@alice:matrix.org''\<rparr>"

section \<open>Properties of the persistent cache\<close>

lemma prune_room_length: "length (prune_room ms) = min 1000 (length ms)"
  by (simp add: prune_room_def)

lemma prune_room_suffix: "\<exists>old. ms = old @ prune_room ms"
proof (cases "1000 < length ms")
  case True
  then have "ms = take (length ms - 1000) ms @ prune_room ms"
    by (simp add: prune_room_def)
  then show ?thesis ..
next
  case False
  then have "ms = [] @ prune_room ms"
    by (simp add: prune_room_def)
  then show ?thesis ..
qed

lemma prune_room_distinct:
  "distinct (map msg_id ms) \<Longrightarrow> distinct (map msg_id (prune_room ms))"
  by (simp add: prune_room_def drop_map[symmetric] distinct_drop)

lemma prune_room_last: "m \<in> set (prune_room (ms @ [m]))"
proof -
  have ne: "prune_room (ms @ [m]) \<noteq> []"
    using prune_room_length[of "ms @ [m]"] by auto
  moreover obtain old where "ms @ [m] = old @ prune_room (ms @ [m])"
    using prune_room_suffix by blast
  ultimately have "last (prune_room (ms @ [m])) = m"
    by (metis last_appendR last_snoc)
  then show ?thesis
    using ne last_in_set by metis
qed

lemma save_cache_cases:
  "messageCache (saveMessageCache store c) = messageCache c \<or>
   messageCache (saveMessageCache store c) = messageCache (pruneMessageCache c)"
  by (simp add: saveMessageCache_def Let_def split: storage_result.splits)

lemma add_exists_noop:
  "messageCache c r = Some ms \<Longrightarrow> (\<exists>x\<in>set ms. msg_id x = msg_id m) \<Longrightarrow>
   addMessageToCache store r m c = c"
  by (auto simp: addMessageToCache_def or_empty_def list_ex_iff Let_def)

lemma add_present:
  "\<exists>ms'. messageCache (addMessageToCache store r m c) r = Some ms' \<and>
         (\<exists>x\<in>set ms'. msg_id x = msg_id m)"
proof -
  let ?c1 = "case messageCache c r of
               None \<Rightarrow> c\<lparr>messageCache := (messageCache c)(r \<mapsto> [])\<rparr>
             | Some _ \<Rightarrow> c"
  obtain ms where ms: "messageCache ?c1 r = Some ms"
    by (cases "messageCache c r") auto
  show ?thesis
  proof (cases "list_ex (\<lambda>x. msg_id x = msg_id m) ms")
    case True
    then have "addMessageToCache store r m c = ?c1"
      using ms by (simp add: addMessageToCache_def Let_def or_empty_def)
    with True ms show ?thesis by (auto simp: list_ex_iff)
  next
    case False
    let ?c2 = "?c1\<lparr>messageCache := (messageCache ?c1)(r \<mapsto> ms @ [m])\<rparr>"
    have eq: "addMessageToCache store r m c = saveMessageCache store ?c2"
      using ms False by (simp add: addMessageToCache_def Let_def or_empty_def)
    have a: "messageCache ?c2 r = Some (ms @ [m])" by simp
    have b: "messageCache (pruneMessageCache ?c2) r = Some (prune_room (ms @ [m]))"
      by (simp add: pruneMessageCache_def)
    from save_cache_cases[of store ?c2]
    have "messageCache (saveMessageCache store ?c2) r = Some (ms @ [m]) \<or>
          messageCache (saveMessageCache store ?c2) r = Some (prune_room (ms @ [m]))"
      using a b by metis
    then show ?thesis
      unfolding eq using prune_room_last[of m ms] by auto
  qed
qed

lemma prune_ids_distinct: "ids_distinct c \<Longrightarrow> ids_distinct (pruneMessageCache c)"
  by (auto simp: ids_distinct_def pruneMessageCache_def prune_room_distinct)

lemma save_ids_distinct: "ids_distinct c \<Longrightarrow> ids_distinct (saveMessageCache store c)"
  using prune_ids_distinct[of c] save_cache_cases[of store c]
  by (auto simp: ids_distinct_def)

lemma add_ids_distinct: "ids_distinct c \<Longrightarrow> ids_distinct (addMessageToCache store r m c)"
  unfolding addMessageToCache_def Let_def
  apply (auto split: option.splits simp: or_empty_def list_ex_iff intro!: save_ids_distinct)
  apply (auto simp: ids_distinct_def)
  done

text \<open>
  C4. Putting a message whose event id the room's cache already holds changes nothing,
  neither the room's records nor anything else of the client; putting the same
  message twice is putting it once; and a cache with at most one record per room and
  event id stays so after every put.
\<close>

theorem cache_put_idempotent:
  "(messageCache c r = Some ms \<and> (\<exists>x\<in>set ms. msg_id x = msg_id m) \<longrightarrow>
      addMessageToCache store r m c = c) \<and>
   addMessageToCache store r m (addMessageToCache store r m c) =
     addMessageToCache store r m c \<and>
   (ids_distinct c \<longrightarrow> ids_distinct (addMessageToCache store r m c))"
  using add_exists_noop add_present add_ids_distinct by metis

theorem cache_put_idempotent_witness:
  "addMessageToCache (\<lambda>_. Stored) example_room (example_record ''$1'')
     (client_with_cache [example_record ''$1'']) = client_with_cache [example_record ''$1''] \<and>
   ids_distinct (addMessageToCache (\<lambda>_. Stored) example_room (example_record ''$1'')
     (client_with_cache [example_record ''$1'']))"
proof -
  have h1: "messageCache (client_with_cache [example_record ''$1'']) example_room =
            Some [example_record ''$1'']"
    by (simp add: client_with_cache_def new_client_def)
  have h2: "\<exists>x\<in>set [example_record ''$1'']. msg_id x = msg_id (example_record ''$1'')"
    by simp
  have h3: "ids_distinct (client_with_cache [example_record ''$1''])"
    by (simp add: ids_distinct_def client_with_cache_def new_client_def)
  show ?thesis
    using cache_put_idempotent[of "client_with_cache [example_record ''$1'']" example_room
        "[example_record ''$1'']" "example_record ''$1''" "\<lambda>_. Stored"] h1 h2 h3
    by blast
qed

text \<open>
  C5. Pruning a room that holds more than 1000 records leaves exactly 1000 of them, the
  last 1000 in insertion order (the room's sequence is some older records followed by
  the ones kept); a room with at most 1000 records keeps them all.
\<close>

theorem prune_keeps_newest_1000:
  assumes "messageCache c r = Some ms"
  shows "(1000 < length ms \<longrightarrow>
           (\<exists>old kept. ms = old @ kept \<and> length kept = 1000 \<and>
               messageCache (pruneMessageCache c) r = Some kept)) \<and>
         (length ms \<le> 1000 \<longrightarrow> messageCache (pruneMessageCache c) r = Some ms)"
proof -
  have p: "messageCache (pruneMessageCache c) r = Some (prune_room ms)"
    using assms by (simp add: pruneMessageCache_def)
  show ?thesis
    using p prune_room_suffix[of ms] prune_room_length[of ms]
    by (auto simp: prune_room_def)
qed

theorem prune_keeps_newest_1000_witness:
  "length records_1500 = 1500 \<and>
   (\<exists>old kept. records_1500 = old @ kept \<and> length kept = 1000 \<and>
      messageCache (pruneMessageCache (client_with_cache records_1500)) example_room = Some kept)"
proof -
  have h1: "messageCache (client_with_cache records_1500) example_room = Some records_1500"
    by (simp add: client_with_cache_def new_client_def)
  have h2: "length records_1500 = 1500"
    by (simp add: records_1500_def)
  show ?thesis
    using prune_keeps_newest_1000[OF h1] h2 by simp
qed

lemma prune_absent_room:
  "messageCache c r = None \<Longrightarrow> messageCache (pruneMessageCache c) r = None"
  by (simp add: pruneMessageCache_def)

section \<open>Properties of the dice engine\<close>

lemma d_not_digit: "\<not> is_digit CHR ''d''"
  by (simp add: is_digit_def)

lemma match_notation_digits:
  assumes "a \<noteq> []" "b \<noteq> []" "list_all is_digit a" "list_all is_digit b"
  shows "match_notation (a @ ''d'' @ b) = Some (a, b)"
proof -
  have "takeWhile is_digit (a @ ''d'' @ b) = a"
    using assms d_not_digit by (simp add: list_all_iff)
  moreover have "dropWhile is_digit (a @ ''d'' @ b) = ''d'' @ b"
    using assms d_not_digit by (simp add: list_all_iff)
  ultimately show ?thesis
    using assms by (simp add: match_notation_def)
qed

lemma match_notation_Some:
  assumes "match_notation s = Some (a, b)"
  shows "s = a @ ''d'' @ b \<and> a \<noteq> [] \<and> b \<noteq> [] \<and> list_all is_digit a \<and> list_all is_digit b"
proof -
  obtain ch rest where r: "dropWhile is_digit s = ch # rest"
    using assms by (auto simp: match_notation_def Let_def split: list.splits)
  have c: "takeWhile is_digit s \<noteq> [] \<and> ch = CHR ''d'' \<and> rest \<noteq> [] \<and> list_all is_digit rest
           \<and> a = takeWhile is_digit s \<and> b = rest"
    using assms r by (auto simp: match_notation_def Let_def split: if_splits)
  have "s = takeWhile is_digit s @ dropWhile is_digit s" by simp
  then have "s = a @ ''d'' @ b" using r c by simp
  moreover have "list_all is_digit a"
    using c by (simp add: list_all_iff) (meson set_takeWhileD)
  ultimately show ?thesis using c by simp
qed

text \<open>The pattern match of the source accepts exactly the specification's notations.\<close>

lemma notation_of_iff:
  "notation_of N M s \<longleftrightarrow>
     (\<exists>a b. match_notation s = Some (a, b) \<and> parseInt a = N \<and> parseInt b = M)"
  unfolding notation_of_def
  using match_notation_digits match_notation_Some by blast

lemma malformed_iff: "(\<forall>N M. \<not> notation_of N M s) \<longleftrightarrow> match_notation s = None"
  by (cases "match_notation s") (auto simp: notation_of_iff)

lemma parseInt_snoc: "parseInt (ds @ [ch]) = 10 * parseInt ds + digit_val ch"
  by (simp add: parseInt_def)

lemma digit_char_ok:
  assumes "d < 10"
  shows "is_digit (digit_char d) \<and> digit_val (digit_char d) = d"
proof -
  have "d \<in> {0,1,2,3,4,5,6,7,8,9}" using assms by auto
  then show ?thesis
    by (auto simp: is_digit_def digit_val_def digit_char_def)
qed

lemma show_nat_digits: "list_all is_digit (show_nat n) \<and> show_nat n \<noteq> []"
proof (induction n rule: show_nat.induct)
  case (1 n)
  show ?case
  proof (cases "n < 10")
    case True
    then show ?thesis
      using digit_char_ok[of n] by (subst show_nat.simps, subst (2) show_nat.simps) simp
  next
    case False
    then show ?thesis
      using 1 digit_char_ok[of "n mod 10"]
      by (subst show_nat.simps, subst (2) show_nat.simps) simp
  qed
qed

lemma parseInt_show_nat: "parseInt (show_nat n) = n"
proof (induction n rule: show_nat.induct)
  case (1 n)
  show ?case
  proof (cases "n < 10")
    case True
    then show ?thesis
      using digit_char_ok[of n] by (subst show_nat.simps) (simp add: parseInt_def)
  next
    case False
    then show ?thesis
      using 1 digit_char_ok[of "n mod 10"]
      by (subst show_nat.simps) (simp add: parseInt_snoc)
  qed
qed

text \<open>The decimal numerals of \<open>N\<close> and \<open>M\<close> around a d are a notation \<open>NdM\<close>.\<close>

lemma notation_of_numerals: "notation_of N M (show_nat N @ ''d'' @ show_nat M)"
  unfolding notation_of_def
  using show_nat_digits parseInt_show_nat by blast

lemma bits_0: "bits 0 = 0"
  by (subst bits.simps) simp

lemma bits_bounds: "n \<noteq> 0 \<Longrightarrow> 2 ^ (bits n - 1) \<le> n \<and> n < 2 ^ bits n"
proof (induction n rule: bits.induct)
  case (1 n)
  show ?case
  proof (cases "n div 2 = 0")
    case True
    then have "n = 1" using 1(2) by presburger
    then show ?thesis by (subst (1 2) bits.simps) (simp add: bits_0)
  next
    case False
    have b: "bits n = Suc (bits (n div 2))" using 1(2) by (subst bits.simps) simp
    have pos: "bits (n div 2) \<noteq> 0" using False by (subst bits.simps) simp
    from 1(1)[OF 1(2) False] have ih: "2 ^ (bits (n div 2) - 1) \<le> n div 2" "n div 2 < 2 ^ bits (n div 2)"
      by auto
    have "(2::nat) ^ (bits n - 1) = 2 * 2 ^ (bits (n div 2) - 1)"
      using b pos by (cases "bits (n div 2)") auto
    then have lo: "2 ^ (bits n - 1) \<le> n" using ih(1) by linarith
    have "n < 2 * 2 ^ bits (n div 2)" using ih(2) by linarith
    then show ?thesis using lo b by simp
  qed
qed

lemma round53_le:
  assumes "53 < bits n"
  shows "round53 n \<le> n + 2 ^ (bits n - 54)"
proof -
  let ?k = "bits n - 53"
  let ?q = "n div 2 ^ ?k"
  let ?rest = "n mod 2 ^ ?k"
  have k1: "?k - 1 = bits n - 54" by simp
  have "?k = Suc (bits n - 54)" using assms by simp
  then have two: "(2::nat) ^ ?k = 2 * 2 ^ (bits n - 54)"
    by (simp only: power_Suc)
  have n: "n = ?q * 2 ^ ?k + ?rest" by (simp only: div_mult_mod_eq)
  show ?thesis
  proof (cases "2 ^ (?k - 1) < ?rest \<or> (?rest = 2 ^ (?k - 1) \<and> odd ?q)")
    case True
    then have r: "2 ^ (bits n - 54) \<le> ?rest" using k1 by auto
    have "round53 n = (?q + 1) * 2 ^ ?k"
      using assms True by (simp add: round53_def Let_def)
    also have "\<dots> = ?q * 2 ^ ?k + 2 * 2 ^ (bits n - 54)" using two by (simp add: algebra_simps)
    also have "\<dots> \<le> ?q * 2 ^ ?k + ?rest + 2 ^ (bits n - 54)" using r by simp
    finally show ?thesis using n by simp
  next
    case False
    then have "round53 n = ?q * 2 ^ ?k"
      using assms by (auto simp: round53_def Let_def)
    then show ?thesis using n by (metis le_add1 trans_le_add1)
  qed
qed

lemma round53_below:
  assumes "1 \<le> M" "m < 2 ^ 53" "m < 2 ^ E"
  shows "round53 (m * M) < M * 2 ^ E"
proof -
  have top: "m * M + M \<le> M * 2 ^ E"
  proof -
    have "Suc m \<le> 2 ^ E" using assms(3) by simp
    then have "Suc m * M \<le> 2 ^ E * M" by (rule mult_le_mono1)
    then show ?thesis by (simp add: mult.commute)
  qed
  show ?thesis
  proof (cases "bits (m * M) \<le> 53")
    case True
    then have "round53 (m * M) = m * M" by (simp add: round53_def)
    then show ?thesis using top assms(1) by linarith
  next
    case False
    then have big: "53 < bits (m * M)" by simp
    then have nz: "m * M \<noteq> 0" using bits_0 by (cases "m * M = 0") simp_all
    have "2 ^ (bits (m * M) - 1) \<le> m * M" using bits_bounds[OF nz] by simp
    also have "m * M < 2 ^ 53 * M" using assms(1,2) by simp
    finally have "(2::nat) ^ (bits (m * M) - 1) < 2 ^ 53 * M" .
    moreover have "bits (m * M) - 1 = 53 + (bits (m * M) - 54)" using big by simp
    then have "(2::nat) ^ (bits (m * M) - 1) = 2 ^ 53 * 2 ^ (bits (m * M) - 54)"
      by (simp only: power_add)
    ultimately have small: "(2::nat) ^ (bits (m * M) - 54) < M" by simp
    have "round53 (m * M) \<le> m * M + 2 ^ (bits (m * M) - 54)" using round53_le[OF big] .
    then show ?thesis using small top by linarith
  qed
qed

lemma floor_product_range:
  assumes "unit_double d" "1 \<le> M"
  shows "floor_product d M < M"
proof -
  obtain m E where d: "d = (m, E)" by (cases d)
  have "round53 (m * M) < M * 2 ^ E"
    using assms d by (intro round53_below) (auto simp: unit_double_def)
  then show ?thesis
    using d by (simp add: floor_product_def less_mult_imp_div_less)
qed

lemma floor_product_zero: "floor_product d 0 = 0"
  by (cases d) (simp add: floor_product_def round53_def bits_0)


lemma bits_unique:
  assumes "2 ^ (k - 1) \<le> n" "n < 2 ^ k" "0 < k"
  shows "bits n = k"
proof -
  have nz: "n \<noteq> 0" using assms(1) by (cases "n = 0") simp_all
  note b = bits_bounds[OF nz]
  have "\<not> bits n < k"
  proof
    assume "bits n < k"
    then have "(2::nat) ^ bits n \<le> 2 ^ (k - 1)" by (intro power_increasing) auto
    then show False using b assms(1) by linarith
  qed
  moreover have "\<not> k < bits n"
  proof
    assume "k < bits n"
    then have "(2::nat) ^ k \<le> 2 ^ (bits n - 1)" by (intro power_increasing) auto
    then show False using b assms(2) by linarith
  qed
  ultimately show ?thesis by simp
qed

text \<open>
  The rounding is the multiplication's, not an exact product: the double
  \<open>3752999689475413 / 2^52\<close> times 6 is a tie that rounds up to 5, where the exact
  product stays below 5.
\<close>

lemma floor_product_rounds:
  "unit_double (3752999689475413, 52) \<and> floor_product (3752999689475413, 52) 6 = 5 \<and>
   3752999689475413 * 6 div (2::nat) ^ 52 = 4"
proof -
  have "bits 22517998136852478 = 55" by (rule bits_unique) simp_all
  then show ?thesis
    by (simp add: unit_double_def floor_product_def round53_def Let_def)
qed

lemma floor_product_half: "unit_double (1, 1) \<and> floor_product (1, 1) 6 = 3"
proof -
  have "bits 6 = 3" by (rule bits_unique) simp_all
  then show ?thesis
    by (simp add: unit_double_def floor_product_def round53_def)
qed

lemma rollDice_matched:
  assumes "match_notation s = Some (a, b)" "parseInt a \<le> 100" "parseInt b \<le> 1000"
  shows "rollDice rnd s =
           Some \<lparr>rr_rolls = map (\<lambda>i. int (floor_product (rnd i) (parseInt b)) + 1)
                              [0..<parseInt a],
                 total = foldl (+) 0
                   (map (\<lambda>i. int (floor_product (rnd i) (parseInt b)) + 1)
                      [0..<parseInt a])\<rparr>"
  using assms by (simp add: rollDice_def Let_def)

text \<open>
  C2, as the code has it. A malformed notation, and a notation \<open>NdM\<close> with \<open>N > 100\<close> or
  \<open>M > 1000\<close>, make \<open>rollDice\<close> return the failure value. There is no lower bound:
  with \<open>N \<le> 100\<close> and \<open>M \<le> 1000\<close>, zero included, \<open>rollDice\<close> returns a result of \<open>N\<close>
  rolls, and every roll of a die with no sides is 1.
\<close>

theorem rollDice_invalid_notation:
  "((\<nexists>N M. notation_of N M s) \<longrightarrow> rollDice rnd s = None) \<and>
   (notation_of N M s \<and> (100 < N \<or> 1000 < M) \<longrightarrow> rollDice rnd s = None) \<and>
   (notation_of N M s \<and> N \<le> 100 \<and> M \<le> 1000 \<longrightarrow>
      (\<exists>res. rollDice rnd s = Some res \<and> length (rr_rolls res) = N \<and>
             (M = 0 \<longrightarrow> (\<forall>x\<in>set (rr_rolls res). x = 1))))"
proof (intro conjI impI)
  assume "\<nexists>N M. notation_of N M s"
  then have "match_notation s = None" by (simp add: malformed_iff)
  then show "rollDice rnd s = None" by (simp add: rollDice_def)
next
  assume "notation_of N M s \<and> (100 < N \<or> 1000 < M)"
  then obtain a b where "match_notation s = Some (a, b)" "parseInt a = N" "parseInt b = M"
    and "100 < N \<or> 1000 < M"
    by (auto simp: notation_of_iff)
  then show "rollDice rnd s = None" by (auto simp: rollDice_def Let_def)
next
  assume "notation_of N M s \<and> N \<le> 100 \<and> M \<le> 1000"
  then obtain a b where m: "match_notation s = Some (a, b)" "parseInt a = N" "parseInt b = M"
    and le: "N \<le> 100" "M \<le> 1000"
    by (auto simp: notation_of_iff)
  show "\<exists>res. rollDice rnd s = Some res \<and> length (rr_rolls res) = N \<and>
             (M = 0 \<longrightarrow> (\<forall>x\<in>set (rr_rolls res). x = 1))"
    using rollDice_matched[of s a b rnd] m le by (auto simp: floor_product_zero)
qed

theorem rollDice_invalid_notation_witness:
  "rollDice (\<lambda>_. (1, 1)) ''d6'' = None \<and> rollDice (\<lambda>_. (1, 1)) ''2x6'' = None \<and>
   rollDice (\<lambda>_. (1, 1)) ''101d6'' = None \<and> rollDice (\<lambda>_. (1, 1)) ''2d1001'' = None \<and>
   (\<exists>res. rollDice (\<lambda>_. (1, 1)) ''3d0'' = Some res \<and> length (rr_rolls res) = 3 \<and>
          (\<forall>x\<in>set (rr_rolls res). x = 1))"
proof -
  have m1: "\<nexists>N M. notation_of N M ''d6''"
    by (simp add: malformed_iff match_notation_def is_digit_def)
  have m2: "\<nexists>N M. notation_of N M ''2x6''"
    by (simp add: malformed_iff match_notation_def is_digit_def)
  have n1: "notation_of 101 6 ''101d6''"
    by (simp add: notation_of_iff match_notation_def is_digit_def parseInt_def digit_val_def)
  have n2: "notation_of 2 1001 ''2d1001''"
    by (simp add: notation_of_iff match_notation_def is_digit_def parseInt_def digit_val_def)
  have n3: "notation_of 3 0 ''3d0''"
    by (simp add: notation_of_iff match_notation_def is_digit_def parseInt_def digit_val_def)
  show ?thesis
    using rollDice_invalid_notation[of "''d6''" "\<lambda>_. (1, 1)"]
      rollDice_invalid_notation[of "''2x6''" "\<lambda>_. (1, 1)"]
      rollDice_invalid_notation[of "''101d6''" "\<lambda>_. (1, 1)" 101 6]
      rollDice_invalid_notation[of "''2d1001''" "\<lambda>_. (1, 1)" 2 1001]
      rollDice_invalid_notation[of "''3d0''" "\<lambda>_. (1, 1)" 3 0]
      m1 m2 n1 n2 n3
    by simp
qed

text \<open>
  The claim as the specification words it fails at a count of zero and at zero sides:
  \<open>0d6\<close> and \<open>2d0\<close> are notations outside the stated ranges, and \<open>rollDice\<close> returns a
  roll result for both.
\<close>

theorem rollDice_accepts_zero:
  "notation_of 0 6 ''0d6'' \<and>
   rollDice (\<lambda>_. (1, 1)) ''0d6'' = Some \<lparr>rr_rolls = [], total = 0\<rparr> \<and>
   notation_of 2 0 ''2d0'' \<and>
   rollDice (\<lambda>_. (1, 1)) ''2d0'' = Some \<lparr>rr_rolls = [1, 1], total = 2\<rparr>"
  by (simp add: notation_of_iff rollDice_def match_notation_def is_digit_def parseInt_def
      digit_val_def upt_rec floor_product_zero)

text \<open>
  C7. For a notation \<open>NdM\<close> with \<open>1 \<le> N \<le> 100\<close> and \<open>1 \<le> M \<le> 1000\<close>, and a random source
  that returns doubles of \<open>[0, 1)\<close>, \<open>rollDice\<close> returns a result of exactly \<open>N\<close>
  integers, each between 1 and \<open>M\<close>; the product is the rounded one of the
  multiplication of doubles.
\<close>

theorem rollDice_valid:
  assumes "notation_of N M s" "1 \<le> N" "N \<le> 100" "1 \<le> M" "M \<le> 1000"
    and "\<forall>i. unit_double (rnd i)"
  shows "\<exists>res. rollDice rnd s = Some res \<and> length (rr_rolls res) = N \<and>
               (\<forall>x\<in>set (rr_rolls res). 1 \<le> x \<and> x \<le> int M)"
proof -
  obtain a b where m: "match_notation s = Some (a, b)" "parseInt a = N" "parseInt b = M"
    using assms(1) by (auto simp: notation_of_iff)
  let ?rs = "map (\<lambda>i. int (floor_product (rnd i) M) + 1) [0..<N]"
  have "rollDice rnd s = Some \<lparr>rr_rolls = ?rs, total = foldl (+) 0 ?rs\<rparr>"
    using m assms rollDice_matched[of s a b rnd] by simp
  moreover have "\<forall>x\<in>set ?rs. 1 \<le> x \<and> x \<le> int M"
  proof
    fix x assume "x \<in> set ?rs"
    then obtain i where "x = int (floor_product (rnd i) M) + 1" by auto
    moreover have "floor_product (rnd i) M < M"
      using assms(4,6) by (intro floor_product_range) auto
    ultimately show "1 \<le> x \<and> x \<le> int M" by simp
  qed
  ultimately show ?thesis by simp
qed

theorem rollDice_valid_witness:
  "notation_of 2 6 ''2d6'' \<and>
   (\<exists>res. rollDice (\<lambda>_. (1, 1)) ''2d6'' = Some res \<and> length (rr_rolls res) = 2 \<and>
          (\<forall>x\<in>set (rr_rolls res). 1 \<le> x \<and> x \<le> 6))"
proof -
  have n: "notation_of 2 6 ''2d6''"
    by (simp add: notation_of_iff match_notation_def is_digit_def parseInt_def digit_val_def)
  have r: "\<forall>i::nat. unit_double (1, 1)" by (simp add: unit_double_def)
  show ?thesis
    using rollDice_valid[OF n _ _ _ _ r] n by simp
qed

section \<open>Properties of the event bus\<close>

lemma slot_undefined_iff:
  "listener_slot name = Undefined \<longleftrightarrow>
     table_name name = None \<and> name \<notin> set object_prototype_names"
  by (auto simp: listener_slot_def split: option.splits)

text \<open>
  A name that is neither a key of the table nor a member of \<open>Object.prototype\<close> is
  ignored: \<open>on\<close> and \<open>off\<close> return the client as it was, and a trigger under that name
  calls nobody.
\<close>

lemma unknown_name_ignored:
  assumes "table_name name = None" "name \<notin> set object_prototype_names"
  shows "on name h c = Inr c \<and> off name h c = Inr c \<and> triggerEvent name d c = Inr c"
  using assms by (simp add: on_def off_def triggerEvent_def listener_slot_def)

lemma table_name_subscribes:
  assumes "table_name name = Some k"
  shows "on name h c = Inr (c\<lparr>listeners := (listeners c)(k := listeners c k @ [h])\<rparr>) \<and>
         triggerEvent name d c = Inr (emit k d c)"
  using assms by (simp add: on_def triggerEvent_def listener_slot_def)

text \<open>
  C10 fails on the names that the listener object inherits. \<open>toString\<close> is outside the
  table, yet \<open>this.listeners['toString']\<close> is the inherited function, which is truthy
  and has no \<open>push\<close>, \<open>filter\<close> or \<open>forEach\<close>: \<open>on\<close>, \<open>off\<close> and the trigger throw
  instead of returning.
\<close>

theorem inherited_name_throws:
  "table_name ''toString'' = None \<and>
   on ''toString'' 7 (new_client Map.empty None) = Inl TypeError \<and>
   off ''toString'' 7 (new_client Map.empty None) = Inl TypeError \<and>
   triggerEvent ''toString'' PRoomLeave (new_client Map.empty None) = Inl TypeError"
  by (simp add: on_def off_def triggerEvent_def listener_slot_def object_prototype_names_def)

lemma emit_frame:
  "net (emit ev d c) = net c \<and> waits (emit ev d c) = waits c \<and>
   messageCache (emit ev d c) = messageCache c \<and> storedCache (emit ev d c) = storedCache c \<and>
   localStorage (emit ev d c) = localStorage c \<and>
   sessionStorage (emit ev d c) = sessionStorage c \<and>
   room (emit ev d c) = room c \<and> userId (emit ev d c) = userId c \<and>
   has_client (emit ev d c) = has_client c \<and> roomState (emit ev d c) = roomState c \<and>
   listeners (emit ev d c) = listeners c \<and>
   isLoadingHistory (emit ev d c) = isLoadingHistory c \<and>
   historyLoaded (emit ev d c) = historyLoaded c"
  by (simp add: emit_def)

section \<open>Properties of the command interpreter\<close>





section \<open>Properties of redaction\<close>

lemma markRedacted_length: "length (markRedacted rid ms) = length ms"
  by (simp add: markRedacted_def)

lemma markRedacted_nth:
  "i < length ms \<Longrightarrow>
   markRedacted rid ms ! i = (if msg_id (ms ! i) = rid then (ms ! i)\<lparr>redacted := True\<rparr> else ms ! i)"
  by (simp add: markRedacted_def)

lemma markRedacted_absent: "\<forall>m\<in>set ms. msg_id m \<noteq> rid \<Longrightarrow> markRedacted rid ms = ms"
  by (simp add: markRedacted_def map_idI)

lemma markRedacted_ids: "map msg_id (markRedacted rid ms) = map msg_id ms"
  by (simp add: markRedacted_def)

lemma save_no_quota:
  "store (messageCache c) \<noteq> QuotaExceededError \<Longrightarrow>
   messageCache (saveMessageCache store c) = messageCache c"
  by (simp add: saveMessageCache_def split: storage_result.splits)

lemma redactInCache_absent_room:
  "messageCache c r = None \<Longrightarrow> redactInCache store r rid c = c"
  by (simp add: redactInCache_def)

lemma redactInCache_room:
  assumes "messageCache c r = Some ms"
  shows "\<exists>ms'. redactInCache store r rid c =
               saveMessageCache store (c\<lparr>messageCache := (messageCache c)(r \<mapsto> ms')\<rparr>) \<and>
          length ms' = length ms \<and>
          (\<forall>i<length ms. ms' ! i =
              (if msg_id (ms ! i) = rid then (ms ! i)\<lparr>redacted := True\<rparr> else ms ! i)) \<and>
          ((\<forall>m\<in>set ms. msg_id m \<noteq> rid) \<longrightarrow> ms' = ms) \<and>
          (store ((messageCache c)(r \<mapsto> ms')) \<noteq> QuotaExceededError \<longrightarrow>
             messageCache (redactInCache store r rid c) = (messageCache c)(r \<mapsto> ms'))"
proof -
  let ?ms = "markRedacted rid ms"
  have "redactInCache store r rid c =
          saveMessageCache store (c\<lparr>messageCache := (messageCache c)(r \<mapsto> ?ms)\<rparr>)"
    using assms by (simp add: redactInCache_def)
  moreover have "store ((messageCache c)(r \<mapsto> ?ms)) \<noteq> QuotaExceededError \<longrightarrow>
             messageCache (redactInCache store r rid c) = (messageCache c)(r \<mapsto> ?ms)"
    using assms by (simp add: redactInCache_def save_no_quota)
  ultimately show ?thesis
    using markRedacted_length[of rid ms] markRedacted_nth[of _ ms rid] markRedacted_absent[of ms rid]
    by blast
qed

lemma redactInCache_ids_distinct:
  "ids_distinct c \<Longrightarrow> ids_distinct (redactInCache store r rid c)"
proof (cases "messageCache c r")
  case None
  then show "ids_distinct c \<Longrightarrow> ?thesis" by (simp add: redactInCache_def)
next
  case (Some ms)
  assume d: "ids_distinct c"
  have "ids_distinct (c\<lparr>messageCache := (messageCache c)(r \<mapsto> markRedacted rid ms)\<rparr>)"
    using d Some by (auto simp: ids_distinct_def markRedacted_ids)
  then show ?thesis
    using Some by (simp add: redactInCache_def save_ids_distinct)
qed

lemma clear_ids_distinct: "ids_distinct (clearMessageCache c)"
  by (simp add: ids_distinct_def clearMessageCache_def)

lemma new_client_ids_distinct: "ids_distinct (new_client ls None)"
  by (simp add: ids_distinct_def new_client_def)

lemma roomTimeline_redaction:
  assumes "room c = Some r" "ev_type ev = ''m.room.redaction''" "ev_associated ev = Some rid" "rid \<noteq> []"
  shows "roomTimeline e ev r c = redactInCache (setItem e) r rid c"
  using assms by (simp add: roomTimeline_def truthy_def str_of_def)

lemma deleteLastMessage_success:
  assumes "fst (deleteLastMessage e c)"
  shows "\<exists>rid. snd (deleteLastMessage e c) =
           redactInCache (setItem e) (str_of (room c)) rid
             (request (ReqRedactEvent (str_of (room c)) rid) c)"
  using assms
  by (auto simp: deleteLastMessage_def Let_def split: if_splits option.splits)


lemma save_quota:
  "store (messageCache c) = QuotaExceededError \<Longrightarrow>
   messageCache (saveMessageCache store c) = messageCache (pruneMessageCache c)"
  by (simp add: saveMessageCache_def Let_def split: storage_result.splits)

lemma redactInCache_quota:
  assumes "messageCache c r = Some ms"
    and "store ((messageCache c)(r \<mapsto> markRedacted rid ms)) = QuotaExceededError"
  shows "messageCache (redactInCache store r rid c) =
           (\<lambda>r'. map_option prune_room (((messageCache c)(r \<mapsto> markRedacted rid ms)) r'))"
  using assms by (simp add: redactInCache_def save_quota pruneMessageCache_def)

text \<open>
  C6, as the code has it. Marking an event id redacted, as the redaction listener and
  \<open>deleteLastMessage\<close> both do it: a room without a cache entry is left alone.
  Otherwise the room's sequence keeps its length and order, every record with that id
  becomes the same record with \<open>redacted\<close> set, every other record stays as it is, and
  with no record of that id the sequence is the old one. The marked cache is then
  written back, also when nothing matched. When the store takes it, or fails with
  anything but a quota error, the marked cache is the client's cache: a no-op for an
  unknown id. When the store answers with a quota error, every room of the marked
  cache is cut down to its newest 1000 records.
\<close>

theorem redaction_marks_exactly:
  "(messageCache c r = None \<longrightarrow> redactInCache store r rid c = c) \<and>
   (messageCache c r = Some ms \<longrightarrow>
      (\<exists>ms'. redactInCache store r rid c =
               saveMessageCache store (c\<lparr>messageCache := (messageCache c)(r \<mapsto> ms')\<rparr>) \<and>
          length ms' = length ms \<and>
          (\<forall>i<length ms. ms' ! i =
              (if msg_id (ms ! i) = rid then (ms ! i)\<lparr>redacted := True\<rparr> else ms ! i)) \<and>
          ((\<forall>m\<in>set ms. msg_id m \<noteq> rid) \<longrightarrow> ms' = ms) \<and>
          (store ((messageCache c)(r \<mapsto> ms')) \<noteq> QuotaExceededError \<longrightarrow>
             messageCache (redactInCache store r rid c) = (messageCache c)(r \<mapsto> ms')) \<and>
          (store ((messageCache c)(r \<mapsto> ms')) = QuotaExceededError \<longrightarrow>
             messageCache (redactInCache store r rid c) =
               (\<lambda>r'. map_option prune_room (((messageCache c)(r \<mapsto> ms')) r'))))) \<and>
   (room c = Some r \<and> ev_type ev = ''m.room.redaction'' \<and> ev_associated ev = Some rid \<and>
    rid \<noteq> [] \<longrightarrow> roomTimeline e ev r c = redactInCache (setItem e) r rid c) \<and>
   (fst (deleteLastMessage e c) \<longrightarrow>
      (\<exists>rid'. snd (deleteLastMessage e c) =
           redactInCache (setItem e) (str_of (room c)) rid'
             (request (ReqRedactEvent (str_of (room c)) rid') c)))"
proof -
  have main: "messageCache c r = Some ms \<longrightarrow>
      (\<exists>ms'. redactInCache store r rid c =
               saveMessageCache store (c\<lparr>messageCache := (messageCache c)(r \<mapsto> ms')\<rparr>) \<and>
          length ms' = length ms \<and>
          (\<forall>i<length ms. ms' ! i =
              (if msg_id (ms ! i) = rid then (ms ! i)\<lparr>redacted := True\<rparr> else ms ! i)) \<and>
          ((\<forall>m\<in>set ms. msg_id m \<noteq> rid) \<longrightarrow> ms' = ms) \<and>
          (store ((messageCache c)(r \<mapsto> ms')) \<noteq> QuotaExceededError \<longrightarrow>
             messageCache (redactInCache store r rid c) = (messageCache c)(r \<mapsto> ms')) \<and>
          (store ((messageCache c)(r \<mapsto> ms')) = QuotaExceededError \<longrightarrow>
             messageCache (redactInCache store r rid c) =
               (\<lambda>r'. map_option prune_room (((messageCache c)(r \<mapsto> ms')) r'))))"
  proof
    assume c: "messageCache c r = Some ms"
    let ?ms = "markRedacted rid ms"
    have "redactInCache store r rid c =
            saveMessageCache store (c\<lparr>messageCache := (messageCache c)(r \<mapsto> ?ms)\<rparr>)"
      using c by (simp add: redactInCache_def)
    moreover have "store ((messageCache c)(r \<mapsto> ?ms)) \<noteq> QuotaExceededError \<longrightarrow>
               messageCache (redactInCache store r rid c) = (messageCache c)(r \<mapsto> ?ms)"
      using c by (simp add: redactInCache_def save_no_quota)
    moreover have "store ((messageCache c)(r \<mapsto> ?ms)) = QuotaExceededError \<longrightarrow>
               messageCache (redactInCache store r rid c) =
                 (\<lambda>r'. map_option prune_room (((messageCache c)(r \<mapsto> ?ms)) r'))"
      using redactInCache_quota[OF c] by blast
    ultimately show "\<exists>ms'. redactInCache store r rid c =
               saveMessageCache store (c\<lparr>messageCache := (messageCache c)(r \<mapsto> ms')\<rparr>) \<and>
          length ms' = length ms \<and>
          (\<forall>i<length ms. ms' ! i =
              (if msg_id (ms ! i) = rid then (ms ! i)\<lparr>redacted := True\<rparr> else ms ! i)) \<and>
          ((\<forall>m\<in>set ms. msg_id m \<noteq> rid) \<longrightarrow> ms' = ms) \<and>
          (store ((messageCache c)(r \<mapsto> ms')) \<noteq> QuotaExceededError \<longrightarrow>
             messageCache (redactInCache store r rid c) = (messageCache c)(r \<mapsto> ms')) \<and>
          (store ((messageCache c)(r \<mapsto> ms')) = QuotaExceededError \<longrightarrow>
             messageCache (redactInCache store r rid c) =
               (\<lambda>r'. map_option prune_room (((messageCache c)(r \<mapsto> ms')) r')))"
      using markRedacted_length[of rid ms] markRedacted_nth[of _ ms rid]
        markRedacted_absent[of ms rid]
      by (intro exI[of _ ?ms]) simp
  qed
  show ?thesis
    using main redactInCache_absent_room[of c r store rid]
      roomTimeline_redaction[of c r ev rid e] deleteLastMessage_success[of e c]
    by blast
qed

theorem redaction_marks_exactly_witness:
  "messageCache (roomTimeline example_env (redaction_of ''$1'') example_room example_session)
     example_room = Some [(example_record ''$1'')\<lparr>redacted := True\<rparr>] \<and>
   messageCache (roomTimeline example_env (redaction_of ''$9'') example_room example_session)
     example_room = Some [example_record ''$1''] \<and>
   messageCache (roomTimeline quota_env (redaction_of ''$1'') example_room example_session)
     example_room = Some (prune_room [(example_record ''$1'')\<lparr>redacted := True\<rparr>]) \<and>
   redactInCache (setItem example_env) example_room ''$1'' fresh_login = fresh_login \<and>
   (\<exists>rid'. snd (deleteLastMessage example_env example_session) =
       redactInCache (setItem example_env) (str_of (room example_session)) rid'
         (request (ReqRedactEvent (str_of (room example_session)) rid') example_session))"
proof -
  have c: "messageCache example_session example_room = Some [example_record ''$1'']"
    by (simp add: example_session_def client_with_cache_def new_client_def)
  have r: "room example_session = Some example_room"
    by (simp add: example_session_def)
  have s: "\<And>x. setItem example_env x \<noteq> QuotaExceededError"
    by (simp add: example_env_def)
  have q: "\<And>x. setItem quota_env x = QuotaExceededError"
    by (simp add: quota_env_def)
  have i: "msg_id (example_record ''$1'') = ''$1''"
    by (simp add: example_record_def)
  have n: "messageCache fresh_login example_room = None"
    by (simp add: fresh_login_def new_client_def)
  have d: "fst (deleteLastMessage example_env example_session)"
    by (simp add: deleteLastMessage_def not_in_room_def truthy_def example_session_def
        client_with_cache_def new_client_def example_env_def example_room_def str_of_def
        example_record_def Let_def)
  note t1 = redaction_marks_exactly[of example_session example_room "setItem example_env" "''$1''"
        "[example_record ''$1'']" "redaction_of ''$1''" example_env]
  note t9 = redaction_marks_exactly[of example_session example_room "setItem example_env" "''$9''"
        "[example_record ''$1'']" "redaction_of ''$9''" example_env]
  note tq = redaction_marks_exactly[of example_session example_room "setItem quota_env" "''$1''"
        "[example_record ''$1'']" "redaction_of ''$1''" quota_env]
  note t0 = redaction_marks_exactly[of fresh_login example_room "setItem example_env" "''$1''"]
  from t1 c r s i obtain ms1 where
    "roomTimeline example_env (redaction_of ''$1'') example_room example_session =
       redactInCache (setItem example_env) example_room ''$1'' example_session"
    "length ms1 = 1" "ms1 ! 0 = (example_record ''$1'')\<lparr>redacted := True\<rparr>"
    "messageCache (redactInCache (setItem example_env) example_room ''$1'' example_session) =
       (messageCache example_session)(example_room \<mapsto> ms1)"
    by (auto simp: redaction_of_def)
  moreover from this have "ms1 = [(example_record ''$1'')\<lparr>redacted := True\<rparr>]"
    by (cases ms1) auto
  moreover from t9 c r s i obtain ms9 where
    "roomTimeline example_env (redaction_of ''$9'') example_room example_session =
       redactInCache (setItem example_env) example_room ''$9'' example_session"
    "ms9 = [example_record ''$1'']"
    "messageCache (redactInCache (setItem example_env) example_room ''$9'' example_session) =
       (messageCache example_session)(example_room \<mapsto> ms9)"
    by (auto simp: redaction_of_def)
  moreover from tq c r q i obtain msq where
    "roomTimeline quota_env (redaction_of ''$1'') example_room example_session =
       redactInCache (setItem quota_env) example_room ''$1'' example_session"
    "length msq = 1" "msq ! 0 = (example_record ''$1'')\<lparr>redacted := True\<rparr>"
    "messageCache (redactInCache (setItem quota_env) example_room ''$1'' example_session) =
       (\<lambda>r'. map_option prune_room (((messageCache example_session)(example_room \<mapsto> msq)) r'))"
    by (auto simp: redaction_of_def)
  moreover from this have "msq = [(example_record ''$1'')\<lparr>redacted := True\<rparr>]"
    by (cases msq) auto
  moreover from t0 n
  have "redactInCache (setItem example_env) example_room ''$1'' fresh_login = fresh_login"
    by blast
  moreover from t1 d
  have "\<exists>rid'. snd (deleteLastMessage example_env example_session) =
       redactInCache (setItem example_env) (str_of (room example_session)) rid'
         (request (ReqRedactEvent (str_of (room example_session)) rid') example_session)"
    by blast
  ultimately show ?thesis by simp
qed

text \<open>
  The claim as the specification words it fails when the browser store is full: the
  redaction of an id that no record has is written back all the same, the quota error
  triggers the prune, and the room loses its 500 oldest records.
\<close>

lemma records_1500_id:
  assumes "m \<in> set records_1500"
  shows "msg_id m \<noteq> ''$9''"
proof
  assume e: "msg_id m = ''$9''"
  from assms obtain i where "m = example_record (show_nat i)"
    unfolding records_1500_def set_map by blast
  then have "show_nat i = ''$9''"
    using e by (simp add: example_record_def)
  then have "list_all is_digit ''$9''"
    using show_nat_digits[of i] by simp
  then show False by (simp add: is_digit_def)
qed

lemma records_1500_ids: "''$9'' \<notin> msg_id ` set records_1500"
  using records_1500_id by (metis imageE)

theorem redaction_unknown_id_prunes:
  "room big_session = Some example_room \<and>
   messageCache big_session example_room = Some records_1500 \<and>
   length records_1500 = 1500 \<and>
   ''$9'' \<notin> msg_id ` set records_1500 \<and>
   messageCache (roomTimeline quota_env (redaction_of ''$9'') example_room big_session)
     example_room = Some (drop 500 records_1500) \<and>
   length (drop 500 records_1500) = 1000"
proof -
  have r: "room big_session = Some example_room"
    by (simp add: big_session_def)
  have c: "messageCache big_session example_room = Some records_1500"
    by (simp add: big_session_def client_with_cache_def new_client_def)
  have l: "length records_1500 = 1500"
    by (simp add: records_1500_def)
  have m: "markRedacted ''$9'' records_1500 = records_1500"
  proof (rule markRedacted_absent, rule ballI)
    fix x assume "x \<in> set records_1500"
    then show "msg_id x \<noteq> ''$9''" by (rule records_1500_id)
  qed
  have t: "roomTimeline quota_env (redaction_of ''$9'') example_room big_session =
           redactInCache (setItem quota_env) example_room ''$9'' big_session"
    using r by (intro roomTimeline_redaction) (simp_all add: redaction_of_def)
  have q: "setItem quota_env
             ((messageCache big_session)(example_room \<mapsto> markRedacted ''$9'' records_1500)) =
           QuotaExceededError"
    by (simp add: quota_env_def)
  have "messageCache (redactInCache (setItem quota_env) example_room ''$9'' big_session) =
          (\<lambda>r'. map_option prune_room
             (((messageCache big_session)(example_room \<mapsto> markRedacted ''$9'' records_1500)) r'))"
    using c q by (rule redactInCache_quota)
  then have "messageCache (redactInCache (setItem quota_env) example_room ''$9'' big_session)
      example_room = Some (prune_room (markRedacted ''$9'' records_1500))"
    by simp
  then have f: "messageCache (roomTimeline quota_env (redaction_of ''$9'') example_room
      big_session) example_room = Some (prune_room records_1500)"
    by (simp only: t m)
  have p: "prune_room records_1500 = drop 500 records_1500"
    by (simp add: prune_room_def l)
  have ld: "length (drop 500 records_1500) = 1000"
    by (simp add: l)
  from r c l records_1500_ids f[unfolded p] ld show ?thesis
    by (intro conjI)
qed

section \<open>Properties of sending a roll\<close>

lemma foldl_max_Max: "foldl max x ys = Max (set (x # ys))"
proof -
  have "(\<lambda>y acc. max acc y) = (max :: 'a \<Rightarrow> 'a \<Rightarrow> 'a)"
    by (intro ext) (rule max.commute)
  then show ?thesis
    by (simp add: Max.set_eq_fold foldl_conv_fold del: set_simps)
qed

lemma foldl_min_Min: "foldl min x ys = Min (set (x # ys))"
proof -
  have "(\<lambda>y acc. min acc y) = (min :: 'a \<Rightarrow> 'a \<Rightarrow> 'a)"
    by (intro ext) (rule min.commute)
  then show ?thesis
    by (simp add: Min.set_eq_fold foldl_conv_fold del: set_simps)
qed

lemma math_max_Max: "rs \<noteq> [] \<Longrightarrow> math_max rs = Some (Max (set rs))"
  by (cases rs) (simp_all add: math_max_def foldl_max_Max del: set_simps)

lemma math_min_Min: "rs \<noteq> [] \<Longrightarrow> math_min rs = Some (Min (set rs))"
  by (cases rs) (simp_all add: math_min_def foldl_min_Min del: set_simps)

lemma evenOdd_even: "evenOdd (Some n) = (if even n then ''even'' else ''odd'')"
  by (simp add: evenOdd_def even_iff_mod_2_eq_zero)

lemma filter_mod2: "filter (\<lambda>roll. roll mod 2 = 0) rs = filter even (rs :: int list)"
  by (simp add: even_iff_mod_2_eq_zero)

lemma net_save: "net (saveMessageCache store c) = net c"
  by (simp add: saveMessageCache_def pruneMessageCache_def Let_def split: storage_result.splits)

lemma net_add: "net (addMessageToCache store r m c) = net c"
  by (simp add: addMessageToCache_def Let_def net_save split: option.splits)

lemma send_success:
  assumes "fst (send e ctx failure content record_of c)"
  shows "net (snd (send e ctx failure content record_of c)) =
           net c @ [ReqSendEvent (str_of (room c)) content]"
  using assms
  by (auto simp: send_def Let_def net_add request_def split: sum.splits)

text \<open>
  C8. Whenever \<open>sendRoll\<close> succeeds on a notation \<open>NdM\<close> with \<open>N \<ge> 1\<close>, the request it
  sent last is a roll message whose structured payload carries the \<open>N\<close> rolls that
  \<open>rollDice\<close> produced, a hit count equal to the number of even rolls, the parity of
  the largest roll as \<open>highEvenOdd\<close> and the parity of the smallest as \<open>lowEvenOdd\<close>.
\<close>

theorem sendRoll_payload:
  assumes "fst (sendRoll e notation c)" "notation_of N M notation" "1 \<le> N"
  shows "\<exists>res content f.
           rollDice (random e) notation = Some res \<and>
           net (snd (sendRoll e notation c)) = net c @ [ReqSendEvent (str_of (room c)) content] \<and>
           out_type content = ''roll'' \<and> out_roll content = Some f \<and>
           dice f = notation \<and> rolls f = rr_rolls res \<and> length (rolls f) = N \<and>
           hits f = int (length (filter even (rolls f))) \<and>
           highEvenOdd f = (if even (Max (set (rolls f))) then ''even'' else ''odd'') \<and>
           lowEvenOdd f = (if even (Min (set (rolls f))) then ''even'' else ''odd'')"
proof -
  from assms(1) obtain res where res: "rollDice (random e) notation = Some res"
    and nir: "\<not> not_in_room c"
    by (auto simp: sendRoll_def split: if_splits option.splits)
  from assms(1) res nir obtain uid where uid: "userId c = Some uid"
    by (auto simp: sendRoll_def Let_def split: option.splits)
  obtain a b where m: "match_notation notation = Some (a, b)" "parseInt a = N" "parseInt b = M"
    using assms(2) by (auto simp: notation_of_iff)
  have len: "length (rr_rolls res) = N"
    using res m by (auto simp: rollDice_def Let_def split: if_splits)
  then have ne: "rr_rolls res \<noteq> []" using assms(3) by auto
  let ?rs = "rr_rolls res"
  let ?name = "takeWhile (\<lambda>ch. ch \<noteq> CHR '':'') uid"
  let ?h = "length (filter even ?rs)"
  let ?hi = "if even (Max (set ?rs)) then ''even'' else ''odd''"
  let ?lo = "if even (Min (set ?rs)) then ''even'' else ''odd''"
  let ?f = "\<lparr>dice = notation, rolls = ?rs, hits = int ?h, highEvenOdd = ?hi, lowEvenOdd = ?lo,
             username = ?name\<rparr>"
  let ?txt = "rollText ?name notation ?rs ?h ?hi ?lo"
  let ?content = "\<lparr>out_body = ?txt, out_format = rpg_format, out_type = ''roll'',
                   out_roll = Some ?f, out_scene = None\<rparr>"
  have eq: "sendRoll e notation c =
          send e ''sendRoll'' ''Failed to send roll'' ?content
            (\<lambda>event_id. (own_message e c event_id ?txt ''roll'')\<lparr>roll_part := Some ?f\<rparr>) c"
    using res nir uid ne
    by (simp add: sendRoll_def Let_def math_max_Max math_min_Min evenOdd_even filter_mod2)
  have "net (snd (sendRoll e notation c)) = net c @ [ReqSendEvent (str_of (room c)) ?content]"
    using assms(1) unfolding eq by (rule send_success)
  then show ?thesis
    using res len by (intro exI[of _ res] exI[of _ ?content] exI[of _ ?f]) simp
qed

theorem sendRoll_payload_witness:
  "fst (sendRoll example_env ''2d6'' example_session) \<and> notation_of 2 6 ''2d6'' \<and>
   (\<exists>res content f.
       rollDice (random example_env) ''2d6'' = Some res \<and>
       net (snd (sendRoll example_env ''2d6'' example_session)) =
         net example_session @ [ReqSendEvent (str_of (room example_session)) content] \<and>
       out_type content = ''roll'' \<and> out_roll content = Some f \<and>
       dice f = ''2d6'' \<and> rolls f = rr_rolls res \<and> length (rolls f) = 2 \<and>
       hits f = int (length (filter even (rolls f))) \<and>
       highEvenOdd f = (if even (Max (set (rolls f))) then ''even'' else ''odd'') \<and>
       lowEvenOdd f = (if even (Min (set (rolls f))) then ''even'' else ''odd''))"
proof -
  have h1: "fst (sendRoll example_env ''2d6'' example_session)"
    by (simp add: sendRoll_def send_def not_in_room_def truthy_def example_session_def
        example_env_def example_room_def rollDice_def match_notation_def is_digit_def
        parseInt_def digit_val_def Let_def)
  have h2: "notation_of 2 6 ''2d6''"
    by (simp add: notation_of_iff match_notation_def is_digit_def parseInt_def digit_val_def)
  have h3: "(1::nat) \<le> 2" by simp
  show ?thesis
    using sendRoll_payload[OF h1 h2 h3] h1 h2 by simp
qed

section \<open>Properties of the history loader\<close>

lemma save_frame:
  "emitted (saveMessageCache store c) = emitted c \<and> calls (saveMessageCache store c) = calls c \<and>
   isLoadingHistory (saveMessageCache store c) = isLoadingHistory c \<and>
   roomState (saveMessageCache store c) = roomState c \<and>
   waits (saveMessageCache store c) = waits c"
  by (simp add: saveMessageCache_def pruneMessageCache_def Let_def split: storage_result.splits)

lemma add_frame:
  "emitted (addMessageToCache store r m c) = emitted c \<and>
   calls (addMessageToCache store r m c) = calls c \<and>
   isLoadingHistory (addMessageToCache store r m c) = isLoadingHistory c \<and>
   roomState (addMessageToCache store r m c) = roomState c \<and>
   waits (addMessageToCache store r m c) = waits c"
  by (simp add: addMessageToCache_def Let_def save_frame split: option.splits)

lemma processHistoricalMessage_loading:
  "isLoadingHistory c \<Longrightarrow> \<not> important m \<Longrightarrow> processHistoricalMessage m c = c"
  by (simp add: processHistoricalMessage_def)

lemma processHistoricalMessage_idle:
  "\<not> isLoadingHistory c \<Longrightarrow>
   processHistoricalMessage m c = emit (channel_of m) (PMessage m) c"
  by (simp add: processHistoricalMessage_def channel_of_def)

lemma historicalMessage_fields:
  "msg_id (historicalMessage c r ev) = ev_id ev \<and> \<not> important (historicalMessage c r ev) \<and>
   historical (historicalMessage c r ev) \<and> roomId (historicalMessage c r ev) = r"
  by (simp add: historicalMessage_def)

lemma prune_room_snoc: "\<exists>ms'. prune_room (ms @ [m]) = ms' @ [m]"
  by (simp add: prune_room_def)

lemma add_new_last:
  assumes "\<forall>x\<in>set (getMessageCache c r). msg_id x \<noteq> msg_id m"
  shows "\<exists>ms. messageCache (addMessageToCache store r m c) r = Some (ms @ [m])"
proof -
  let ?c1 = "case messageCache c r of
               None \<Rightarrow> c\<lparr>messageCache := (messageCache c)(r \<mapsto> [])\<rparr>
             | Some _ \<Rightarrow> c"
  let ?ms = "getMessageCache c r"
  have ms: "messageCache ?c1 r = Some ?ms"
    by (cases "messageCache c r") (auto simp: getMessageCache_def or_empty_def)
  let ?c2 = "?c1\<lparr>messageCache := (messageCache ?c1)(r \<mapsto> ?ms @ [m])\<rparr>"
  have nex: "\<not> list_ex (\<lambda>x. msg_id x = msg_id m) ?ms"
    using assms by (simp add: list_ex_iff)
  have eq: "addMessageToCache store r m c = saveMessageCache store ?c2"
    using ms nex by (simp add: addMessageToCache_def Let_def or_empty_def)
  have a: "messageCache ?c2 r = Some (?ms @ [m])" by simp
  obtain ms' where "prune_room (?ms @ [m]) = ms' @ [m]"
    using prune_room_snoc by blast
  then have b: "messageCache (pruneMessageCache ?c2) r = Some (ms' @ [m])"
    by (simp add: pruneMessageCache_def)
  from save_cache_cases[of store ?c2] a b show ?thesis
    unfolding eq by metis
qed


lemma processEvent_new:
  assumes "ev_type ev = ''m.room.message''" "\<not> ev_redacted ev" "ev_id ev \<notin> set processed"
  shows "processEvent e r ev (processed, n, c) =
           (processed @ [ev_id ev], n + 1,
            processHistoricalMessage (historicalMessage c r ev)
              (addMessageToCache (setItem e) r (historicalMessage c r ev) c))"
  using assms by (simp add: processEvent_def Let_def)

lemma updateRoomState_frame:
  "messageCache (updateRoomState e r c) = messageCache c \<and>
   isLoadingHistory (updateRoomState e r c) = isLoadingHistory c \<and>
   has_client (updateRoomState e r c) = has_client c"
  by (simp add: updateRoomState_def Let_def request_def emit_def split: sum.splits)

lemma processHistoricalMessage_cache:
  "messageCache (processHistoricalMessage m c) = messageCache c"
  by (simp add: processHistoricalMessage_def emit_def)

text \<open>
  One step of the page loop on a new message event: the Message is built and cached;
  it is published, on the channel of its type tag, only while \<open>isLoadingHistory\<close> is
  clear.
\<close>

lemma processEvent_new_effect:
  assumes "ev_type ev = ''m.room.message''" "\<not> ev_redacted ev" "ev_id ev \<notin> set processed"
  shows "\<exists>c'. processEvent e r ev (processed, n, c) = (processed @ [ev_id ev], n + 1, c') \<and>
            (\<exists>ms. messageCache c' r = Some ms \<and> (\<exists>x\<in>set ms. msg_id x = ev_id ev)) \<and>
            ((\<forall>x\<in>set (getMessageCache c r). msg_id x \<noteq> ev_id ev) \<longrightarrow>
               (\<exists>ms. messageCache c' r = Some (ms @ [historicalMessage c r ev]))) \<and>
            (isLoadingHistory c \<longrightarrow> emitted c' = emitted c \<and> calls c' = calls c) \<and>
            (\<not> isLoadingHistory c \<longrightarrow>
               emitted c' = emitted c @
                 [(channel_of (historicalMessage c r ev), PMessage (historicalMessage c r ev))])"
proof -
  let ?m = "historicalMessage c r ev"
  let ?c1 = "addMessageToCache (setItem e) r ?m c"
  let ?c' = "processHistoricalMessage ?m ?c1"
  have id: "msg_id ?m = ev_id ev" "\<not> important ?m"
    by (simp_all add: historicalMessage_fields)
  have a: "processEvent e r ev (processed, n, c) = (processed @ [ev_id ev], n + 1, ?c')"
    using assms by (rule processEvent_new)
  have b: "\<exists>ms. messageCache ?c' r = Some ms \<and> (\<exists>x\<in>set ms. msg_id x = ev_id ev)"
    using add_present[of "setItem e" r ?m c] id by (simp add: processHistoricalMessage_cache)
  have c: "(\<forall>x\<in>set (getMessageCache c r). msg_id x \<noteq> ev_id ev) \<longrightarrow>
               (\<exists>ms. messageCache ?c' r = Some (ms @ [?m]))"
    using add_new_last[of c r ?m "setItem e"] id by (simp add: processHistoricalMessage_cache)
  have d: "isLoadingHistory c \<longrightarrow> emitted ?c' = emitted c \<and> calls ?c' = calls c"
    using add_frame[of "setItem e" r ?m c] id by (simp add: processHistoricalMessage_loading)
  have f: "\<not> isLoadingHistory c \<longrightarrow> emitted ?c' = emitted c @ [(channel_of ?m, PMessage ?m)]"
    using add_frame[of "setItem e" r ?m c]
    by (simp add: processHistoricalMessage_idle) (simp add: emit_def)
  show ?thesis
    using a b c d f by blast
qed

lemmas history_eval =
  joinRoom_def fresh_login_def new_client_def example_env_def truthy_def
  updateRoomState_def request_def emit_def getMessageCache_def or_empty_def Let_def
  loadRoomHistory_def processEvents_def processEvent_def notice_def wait_def
  historicalMessage_def messageType_def member_power_def addMessageToCache_def
  saveMessageCache_def processHistoricalMessage_def chat_event_def chat_record_def
  str_of_def rpg_format_def example_room_def

text \<open>
  C1 fails inside \<open>joinRoom\<close>, in its last part. A client that has logged in and caches
  nothing joins a room whose live timeline is empty; the server answers the first
  backward page with one chat event, not redacted and not processed before. The
  loader builds the Message and inserts it into the cache, and the whole join
  publishes the room state, the loading notice and the room join, but never the
  Message: \<open>joinRoom\<close> sets \<open>isLoadingHistory\<close> around the load and
  \<open>_processHistoricalMessage\<close> returns at once for a Message without \<open>important\<close>. The
  same load of the same page with the flag clear publishes the Message on the message
  channel, as the call in \<open>processEvents\<close> means it to.
\<close>

theorem fetched_event_not_published:
  "ev_type chat_event = ''m.room.message'' \<and> \<not> ev_redacted chat_event \<and>
   (\<exists>c'. joinRoom example_env [Resolved (Some [chat_event]) False] example_room None
            fresh_login = Some (True, c') \<and>
         messageCache c' example_room = Some [chat_record] \<and>
         emitted c' =
           [(EvRoomState, PRoomState example_room [(''@alice:matrix.org'', 0)]),
            (EvMessage, PNotice ''system'' example_room ''Loading message history...'' False False),
            (EvRoomJoin, PRoomJoin example_room ''Room'')]) \<and>
   (\<exists>c'. loadRoomHistory example_env [Resolved (Some [chat_event]) False] example_room
            fresh_login = Some (True, c') \<and>
         messageCache c' example_room = Some [chat_record] \<and>
         emitted c' =
           [(EvMessage, PNotice ''system'' example_room ''Loading message history...'' False False),
            (EvMessage, PMessage chat_record)])"
  by (simp add: history_eval)

section \<open>Properties of pagination failures\<close>

lemma retryAfter_cases:
  "(retry_after_ms err = Some d \<and> 0 < d \<longrightarrow> retryAfter err = d) \<and>
   (retry_after_ms err = None \<or> retry_after_ms err = Some 0 \<longrightarrow> retryAfter err = 5000)"
  by (auto simp: retryAfter_def)

lemma paginate_rate_limited:
  assumes "\<forall>x\<in>set errs. rate_limited x"
  shows "paginateBackward e r limit (map Rejected errs @ script) (p, c) =
         paginateBackward e r limit script
           (p, c\<lparr>net := net c @ replicate (length errs) (ReqMessages r limit),
                 waits := waits c @ map retryAfter errs\<rparr>)"
  using assms
proof (induction errs arbitrary: c)
  case Nil
  then show ?case by simp
next
  case (Cons err errs)
  let ?c = "wait (retryAfter err) (request (ReqMessages r limit) c)"
  have "paginateBackward e r limit (map Rejected (err # errs) @ script) (p, c) =
        paginateBackward e r limit (map Rejected errs @ script) (p, ?c)"
    using Cons.prems by (simp add: rate_limited_def)
  also have "\<dots> = paginateBackward e r limit script
           (p, ?c\<lparr>net := net ?c @ replicate (length errs) (ReqMessages r limit),
                  waits := waits ?c @ map retryAfter errs\<rparr>)"
    using Cons.IH[of ?c] Cons.prems by simp
  finally show ?case
    by (simp add: wait_def request_def replicate_append_same)
qed

lemma paginate_other_error:
  assumes "\<not> rate_limited err"
  shows "paginateBackward e r limit (Rejected err # script) (p, c) =
           Some (p, c\<lparr>net := net c @ [ReqMessages r limit],
                       emitted := emitted c @ [(EvMessage, failure_notice r err)],
                       calls := calls c @
                         map (\<lambda>h. (h, failure_notice r err)) (listeners c EvMessage)\<rparr>)"
  using assms
  by (simp add: rate_limited_def failure_notice_def notice_def emit_def request_def)

lemma processHistoricalMessage_frame:
  "waits (processHistoricalMessage m c) = waits c \<and>
   has_client (processHistoricalMessage m c) = has_client c"
  by (simp add: processHistoricalMessage_def emit_def)

lemma replay_frame:
  "waits (fold processHistoricalMessage ms c) = waits c \<and>
   has_client (fold processHistoricalMessage ms c) = has_client c"
  by (induction ms arbitrary: c) (simp_all add: processHistoricalMessage_frame)

lemma add_has_client: "has_client (addMessageToCache store r m c) = has_client c"
  by (simp add: addMessageToCache_def saveMessageCache_def pruneMessageCache_def Let_def
      split: option.splits storage_result.splits)

lemma processEvent_waits:
  "waits (snd (snd (processEvent e r ev st))) = waits (snd (snd st))"
  by (cases st) (simp add: processEvent_def Let_def processHistoricalMessage_frame add_frame)

lemma processEvents_waits:
  "waits (snd (snd (processEvents e r evs (p, c)))) = waits c"
proof -
  have "\<And>st. waits (snd (snd (fold (processEvent e r) evs st))) = waits (snd (snd st))"
    by (induction evs) (simp_all add: processEvent_waits)
  then show ?thesis by (simp add: processEvents_def)
qed

lemma updateRoomState_waits: "waits (updateRoomState e r c) = waits c"
  by (simp add: updateRoomState_def Let_def request_def emit_def split: sum.splits)

lemma join_survives_failure:
  assumes "has_client c"
    and "joinRoomReply e x (if truthy invite then invite else None) = Inr (r, name)"
    and "getRoom e r = Some timeline"
    and "\<forall>x\<in>set errs. rate_limited x" "\<not> rate_limited err"
  shows "\<exists>c' es. joinRoom e (map Rejected errs @ Rejected err # script) x invite c =
                    Some (True, c') \<and>
                 emitted c' = es @ [(EvMessage, failure_notice r err),
                                    (EvRoomJoin, PRoomJoin r name)] \<and>
                 waits c' = waits c @ map retryAfter errs"
proof -
  let ?c0 = "request (ReqJoinRoom x (if truthy invite then invite else None)) c"
  let ?c1 = "?c0\<lparr>room := Some r, localStorage := (localStorage ?c0)(''matrixRoom'' \<mapsto> r)\<rparr>"
  let ?c2 = "updateRoomState e r ?c1"
  let ?c3 = "fold processHistoricalMessage (getMessageCache ?c2 r) ?c2"
  let ?c4 = "?c3\<lparr>isLoadingHistory := True\<rparr>"
  let ?c5 = "emit EvMessage (notice r ''Loading message history...'' False) ?c4"
  have h4: "has_client ?c4"
    using assms(1) updateRoomState_frame[of e r ?c1] replay_frame[of "getMessageCache ?c2 r" ?c2]
    by (simp add: request_def)
  have w4: "waits ?c4 = waits c"
    using updateRoomState_waits[of e r ?c1] replay_frame[of "getMessageCache ?c2 r" ?c2]
    by (simp add: request_def)
  obtain p n c6 where pe: "processEvents e r timeline ([], ?c5) = (p, n, c6)"
    by (cases "processEvents e r timeline ([], ?c5)") auto
  have w6: "waits c6 = waits c"
    using processEvents_waits[of e r timeline "[]" ?c5] pe w4 by (simp add: emit_def)
  let ?c7 = "c6\<lparr>net := net c6 @ replicate (length errs) (ReqMessages r 100),
                 waits := waits c6 @ map retryAfter errs\<rparr>"
  let ?c8 = "?c7\<lparr>net := net ?c7 @ [ReqMessages r 100],
                 emitted := emitted ?c7 @ [(EvMessage, failure_notice r err)],
                 calls := calls ?c7 @
                   map (\<lambda>h. (h, failure_notice r err)) (listeners ?c7 EvMessage)\<rparr>"
  have pg: "paginateBackward e r 100 (map Rejected errs @ Rejected err # script) (p, c6) =
            Some (p, ?c8)"
    using paginate_rate_limited[OF assms(4), of e r 100 "Rejected err # script" p c6]
      paginate_other_error[OF assms(5), of e r 100 script p ?c7]
    by simp
  have l: "loadRoomHistory e (map Rejected errs @ Rejected err # script) r ?c4 = Some (True, ?c8)"
    using h4 assms(3) pe pg by (simp add: loadRoomHistory_def Let_def)
  let ?c' = "emit EvRoomJoin (PRoomJoin r name)
               (?c8\<lparr>isLoadingHistory := False, historyLoaded := True\<rparr>)"
  have j: "joinRoom e (map Rejected errs @ Rejected err # script) x invite c = Some (True, ?c')"
    using assms(1,2) l by (simp add: joinRoom_def Let_def)
  have "emitted ?c' = emitted c6 @ [(EvMessage, failure_notice r err),
                                    (EvRoomJoin, PRoomJoin r name)]"
    by (simp add: emit_def)
  moreover have "waits ?c' = waits c @ map retryAfter errs"
    using w6 by (simp add: emit_def)
  ultimately show ?thesis using j by blast
qed


text \<open>
  C9, as the code has it. Rate-limit rejections, any number of them in a row, are
  retried: each costs one request and one wait, and pagination goes on with the
  processed set and the client otherwise as they were. The wait is the delay the
  server gives when that is not zero, and 5000 ms when the server gives none or gives
  zero. Any other rejection ends the pagination at once, whatever the server would
  have answered next, without a wait; it is published as a system notice on the
  message channel. It is not fatal: the join completes, answers \<open>true\<close> and publishes
  the room join after the notice.
\<close>

theorem pagination_retries_only_rate_limit:
  "((\<forall>x\<in>set errs. rate_limited x) \<longrightarrow>
      paginateBackward e r limit (map Rejected errs @ script) (p, c) =
      paginateBackward e r limit script
        (p, c\<lparr>net := net c @ replicate (length errs) (ReqMessages r limit),
              waits := waits c @ map retryAfter errs\<rparr>)) \<and>
   (retry_after_ms lerr = Some d \<and> 0 < d \<longrightarrow> retryAfter lerr = d) \<and>
   (retry_after_ms lerr = None \<or> retry_after_ms lerr = Some 0 \<longrightarrow> retryAfter lerr = 5000) \<and>
   (\<not> rate_limited err \<longrightarrow>
      paginateBackward e r limit (Rejected err # script) (p, c) =
        Some (p, c\<lparr>net := net c @ [ReqMessages r limit],
                    emitted := emitted c @ [(EvMessage, failure_notice r err)],
                    calls := calls c @
                      map (\<lambda>h. (h, failure_notice r err)) (listeners c EvMessage)\<rparr>)) \<and>
   (has_client c \<and> joinRoomReply e x (if truthy invite then invite else None) = Inr (r, name) \<and>
    getRoom e r = Some timeline \<and> (\<forall>x\<in>set errs. rate_limited x) \<and> \<not> rate_limited err \<longrightarrow>
      (\<exists>c' es. joinRoom e (map Rejected errs @ Rejected err # script) x invite c =
                  Some (True, c') \<and>
               emitted c' = es @ [(EvMessage, failure_notice r err),
                                  (EvRoomJoin, PRoomJoin r name)] \<and>
               waits c' = waits c @ map retryAfter errs))"
  using paginate_rate_limited[of errs e r limit script p c] retryAfter_cases[of lerr d]
    paginate_other_error[of err e r limit script p c]
    join_survives_failure[of c e x invite r name timeline errs err script]
  by blast

theorem pagination_retries_only_rate_limit_witness:
  "retryAfter (limit_error (Some 2000)) = 2000 \<and> retryAfter (limit_error None) = 5000 \<and>
   paginateBackward example_env example_room 100
     (map Rejected [limit_error (Some 2000), limit_error None] @ []) ([], fresh_login) =
   paginateBackward example_env example_room 100 []
     ([], fresh_login
        \<lparr>net := net fresh_login @
           replicate (length [limit_error (Some 2000), limit_error None])
             (ReqMessages example_room 100),
         waits := waits fresh_login @
           map retryAfter [limit_error (Some 2000), limit_error None]\<rparr>) \<and>
   paginateBackward example_env example_room 100 [Rejected network_error] ([], fresh_login) =
     Some ([], fresh_login
        \<lparr>net := net fresh_login @ [ReqMessages example_room 100],
         emitted := emitted fresh_login @
           [(EvMessage, failure_notice example_room network_error)],
         calls := calls fresh_login @
           map (\<lambda>h. (h, failure_notice example_room network_error))
             (listeners fresh_login EvMessage)\<rparr>) \<and>
   (\<exists>c' es. joinRoom example_env
               [Rejected (limit_error (Some 2000)), Rejected (limit_error None),
                Rejected network_error]
               example_room None fresh_login = Some (True, c') \<and>
            emitted c' = es @ [(EvMessage, failure_notice example_room network_error),
                               (EvRoomJoin, PRoomJoin example_room ''Room'')] \<and>
            waits c' = [2000, 5000])"
proof -
  let ?errs = "[limit_error (Some 2000), limit_error None]"
  have h1: "\<forall>x\<in>set ?errs. rate_limited x" "\<not> rate_limited network_error"
    by (simp_all add: rate_limited_def limit_error_def network_error_def)
  have h2: "has_client fresh_login" "waits fresh_login = []"
    by (simp_all add: fresh_login_def new_client_def)
  have h3: "joinRoomReply example_env example_room (if truthy None then None else None) =
              Inr (example_room, ''Room'')"
    "getRoom example_env example_room = Some []"
    by (simp_all add: example_env_def)
  have h4: "retry_after_ms (limit_error (Some 2000)) = Some 2000 \<and> (0::nat) < 2000"
    "retry_after_ms (limit_error None) = None"
    by (simp_all add: limit_error_def)
  note t1 = pagination_retries_only_rate_limit[of ?errs example_env example_room 100 "[]" "[]"
      fresh_login "limit_error (Some 2000)" 2000 network_error example_room None "''Room''" "[]"]
  note t2 = pagination_retries_only_rate_limit[of ?errs example_env example_room 100 "[]" "[]"
      fresh_login "limit_error None" 0 network_error example_room None "''Room''" "[]"]
  from t1 h4 have r1: "retryAfter (limit_error (Some 2000)) = 2000" by blast
  from t2 h4 have r2: "retryAfter (limit_error None) = 5000" by blast
  from t1 h1 h2 h3 obtain c' es where
    "joinRoom example_env (map Rejected ?errs @ [Rejected network_error]) example_room None
       fresh_login = Some (True, c')"
    "emitted c' = es @ [(EvMessage, failure_notice example_room network_error),
                        (EvRoomJoin, PRoomJoin example_room ''Room'')]"
    "waits c' = waits fresh_login @ map retryAfter ?errs"
    by blast
  moreover from t1 h1 have
    "paginateBackward example_env example_room 100 (map Rejected ?errs @ []) ([], fresh_login) =
     paginateBackward example_env example_room 100 []
       ([], fresh_login
          \<lparr>net := net fresh_login @ replicate (length ?errs) (ReqMessages example_room 100),
           waits := waits fresh_login @ map retryAfter ?errs\<rparr>)"
    by blast
  moreover from t1 h1 have
    "paginateBackward example_env example_room 100 [Rejected network_error] ([], fresh_login) =
     Some ([], fresh_login
        \<lparr>net := net fresh_login @ [ReqMessages example_room 100],
         emitted := emitted fresh_login @
           [(EvMessage, failure_notice example_room network_error)],
         calls := calls fresh_login @
           map (\<lambda>h. (h, failure_notice example_room network_error))
             (listeners fresh_login EvMessage)\<rparr>)"
    by blast
  ultimately show ?thesis using r1 r2 h2 by auto
qed

text \<open>
  The claim as the specification words it fails when the server specifies a delay of
  zero: the loader waits 5000 ms, not the delay the server gave.
\<close>

theorem zero_delay_waits_default:
  "rate_limited (limit_error (Some 0)) \<and> retry_after_ms (limit_error (Some 0)) = Some 0 \<and>
   (\<exists>st. paginateBackward example_env example_room 100
            [Rejected (limit_error (Some 0)), Resolved None False] ([], fresh_login) = Some st \<and>
         waits (snd st) = [5000])"
  by (simp add: rate_limited_def limit_error_def retryAfter_def wait_def request_def emit_def
      notice_def fresh_login_def new_client_def)

end
